theory Spec2Isabelle
  imports Complex_Main
begin

section \<open>JavaScript values as the controller and the model see them\<close>

text \<open>
  The request body is parsed JSON. An entry of an array (a category, a work item, a
  surface, a payment) is guarded in the source by tests such as \<open>!item\<close> and
  \<open>typeof item !== 'object'\<close>, so an entry is one of: \<open>null\<close>/\<open>undefined\<close>; a
  primitive (number, string, boolean); an object. The source never looks inside a
  primitive entry: each property read of it gives \<open>undefined\<close>.

  A property of an object that holds a string, a number or a boolean is an
  \<open>option\<close>: \<open>None\<close> is an absent (\<open>undefined\<close> or \<open>null\<close>) property. Properties
  hold values of the type the Mongoose schema gives them. Numbers are exact
  rationals: the finite IEEE doubles of JavaScript without their rounding error.
  Strings are byte strings.
\<close>

datatype 'a js = Null | Prim | Obj 'a

text \<open>
  A value that the source tests with \<open>Array.isArray\<close>: an absent argument (which a
  default parameter replaces), a value that is no array, or an array.
\<close>

datatype 'a arrayInput = Absent | NotAnArray | AnArray "'a list"

datatype error = TypeError | MissingFields nat

subsection \<open>Strings\<close>

text \<open>\<open>!s\<close> is false exactly for a non-empty string.\<close>

definition truthy :: "string option \<Rightarrow> bool" where
  "truthy s = (case s of None \<Rightarrow> False | Some v \<Rightarrow> v \<noteq> [])"

text \<open>\<open>a || b\<close> on string properties.\<close>

definition orElse :: "string option \<Rightarrow> string option \<Rightarrow> string option" where
  "orElse a b = (if truthy a then a else b)"

text \<open>\<open>a || 'literal'\<close>.\<close>

definition orDefault :: "string option \<Rightarrow> string \<Rightarrow> string" where
  "orDefault a d = (case a of None \<Rightarrow> d | Some v \<Rightarrow> if v = [] then d else v)"

text \<open>
  The white space that \<open>String.prototype.trim\<close> removes, as far as it is ASCII:
  tab, line feed, vertical tab, form feed, carriage return and space.
\<close>

definition isWhiteSpace :: "char \<Rightarrow> bool" where
  "isWhiteSpace c = (c \<in> set [CHR 0x09, CHR 0x0A, CHR 0x0B, CHR 0x0C, CHR 0x0D, CHR 0x20])"

definition trim :: "string \<Rightarrow> string" where
  "trim s = rev (dropWhile isWhiteSpace (rev (dropWhile isWhiteSpace s)))"

text \<open>\<open>toLowerCase\<close> on the ASCII letters.\<close>

definition toLowerChar :: "char \<Rightarrow> char" where
  "toLowerChar c =
     (case map_of (zip ''ABCDEFGHIJKLMNOPQRSTUVWXYZ'' ''abcdefghijklmnopqrstuvwxyz'') c of
        None \<Rightarrow> c
      | Some l \<Rightarrow> l)"

definition toLowerCase :: "string \<Rightarrow> string" where
  "toLowerCase s = map toLowerChar s"

text \<open>\<open>!v || v.trim() === ''\<close>: the property is absent, empty or white space only.\<close>

definition blank :: "string option \<Rightarrow> bool" where
  "blank s = (case s of None \<Rightarrow> True | Some v \<Rightarrow> v = [] \<or> trim v = [])"

subsection \<open>Numbers\<close>

text \<open>\<open>Number(v) || 0\<close> and \<open>parseFloat(v) || 0\<close> on a number property: an absent
  property gives \<open>NaN\<close>, which \<open>||\<close> replaces by 0; a number is returned as it is.\<close>

definition numberOr0 :: "rat option \<Rightarrow> rat" where
  "numberOr0 v = (case v of None \<Rightarrow> 0 | Some x \<Rightarrow> x)"

definition parseFloatOr0 :: "rat option \<Rightarrow> rat" where
  "parseFloatOr0 v = (case v of None \<Rightarrow> 0 | Some x \<Rightarrow> x)"

text \<open>
  \<open>parseInt\<close> converts its argument to a string and reads the leading run of
  decimal digits. \<open>Number.prototype.toString\<close> writes a number \<open>x\<close> with
  \<open>10\<^sup>-\<^sup>6 \<le> |x| < 10\<^sup>2\<^sup>1\<close> (and 0) in positional notation, where the digits
  before the point are the integer part; every other number is written in exponent
  notation \<open>d.ddd\<dots>e\<plusminus>n\<close>, where the only digit before the point is the first
  significant digit.
\<close>

function leadingDigit :: "rat \<Rightarrow> int" where
  "leadingDigit x =
     (if x \<le> 0 then 0
      else if 10 \<le> x then leadingDigit (x / 10)
      else if x < 1 then leadingDigit (x * 10)
      else \<lfloor>x\<rfloor>)"
  by pat_completeness auto
termination
proof (relation "measure (\<lambda>x. if 10 \<le> x then nat \<lfloor>x\<rfloor> + 1
                               else if x < 1 then nat \<lfloor>1 / x\<rfloor> + 1 else 0)")
  show "wf (measure (\<lambda>x::rat. if 10 \<le> x then nat \<lfloor>x\<rfloor> + 1
                               else if x < 1 then nat \<lfloor>1 / x\<rfloor> + 1 else 0))"
    by simp
next
  fix x :: rat
  assume a: "\<not> x \<le> 0" "10 \<le> x"
  have "\<lfloor>x / 10\<rfloor> < \<lfloor>x\<rfloor>"
  proof -
    have "x / 10 + 1 \<le> x" using a by simp
    then have "\<lfloor>x / 10\<rfloor> + 1 \<le> \<lfloor>x\<rfloor>"
      by (metis floor_mono floor_add_int of_int_1)
    then show ?thesis by simp
  qed
  moreover have "0 \<le> \<lfloor>x / 10\<rfloor>" using a by simp
  ultimately show "(x / 10, x) \<in> measure (\<lambda>x. if 10 \<le> x then nat \<lfloor>x\<rfloor> + 1
                               else if x < 1 then nat \<lfloor>1 / x\<rfloor> + 1 else 0)"
    using a by auto
next
  fix x :: rat
  assume a: "\<not> x \<le> 0" "\<not> 10 \<le> x" "x < 1"
  show "(x * 10, x) \<in> measure (\<lambda>x. if 10 \<le> x then nat \<lfloor>x\<rfloor> + 1
                               else if x < 1 then nat \<lfloor>1 / x\<rfloor> + 1 else 0)"
  proof (cases "x * 10 < 1")
    case True
    have p: "10 \<le> 1 / x" using a True by (simp add: field_simps)
    have "1 / (x * 10) + 1 \<le> 1 / x" using p by (simp add: field_simps)
    then have "\<lfloor>1 / (x * 10)\<rfloor> + 1 \<le> \<lfloor>1 / x\<rfloor>"
      by (metis floor_mono floor_add_int of_int_1)
    moreover have "0 \<le> \<lfloor>1 / (x * 10)\<rfloor>" using a by simp
    ultimately show ?thesis using a True by auto
  next
    case False
    then have "\<not> 10 \<le> x * 10" using a by simp
    then show ?thesis using a False by auto
  qed
qed

declare leadingDigit.simps [simp del]

definition parseInt :: "rat \<Rightarrow> rat" where
  "parseInt x =
     (if x = 0 then 0
      else if 1 / 10 ^ 6 \<le> \<bar>x\<bar> \<and> \<bar>x\<bar> < 10 ^ 21 then sgn x * of_int \<lfloor>\<bar>x\<bar>\<rfloor>
      else sgn x * of_int (leadingDigit \<bar>x\<bar>))"

text \<open>\<open>parseInt(v) || 0\<close>.\<close>

definition parseIntOr0 :: "rat option \<Rightarrow> rat" where
  "parseIntOr0 v = (case v of None \<Rightarrow> 0 | Some x \<Rightarrow> parseInt x)"

text \<open>
  \<open>Number(x.toFixed(2))\<close>: the multiple of 1/100 nearest to \<open>x\<close>, the larger in
  magnitude of two that are equally near. (From \<open>10\<^sup>2\<^sup>1\<close> on \<open>toFixed\<close> writes the
  number itself; a double of that size is an integer, so the result is the same.)
\<close>

definition toFixed2 :: "rat \<Rightarrow> rat" where
  "toFixed2 x = sgn x * of_int \<lfloor>\<bar>x\<bar> * 100 + 1 / 2\<rfloor> / 100"

section \<open>The data model\<close>

text \<open>
  The records follow the Mongoose schemas of \<^verbatim>\<open>models/project.js\<close>. Field names
  carry a prefix for their record (\<open>s_\<close> surface, \<open>w_\<close> work item, \<open>c_\<close> category,
  \<open>f_\<close> misc fee, \<open>p_\<close> payment, \<open>st_\<close> settings, \<open>t_\<close> totals, \<open>pd_\<close> payment
  details, \<open>ci_\<close> customer info, \<open>pr_\<close> project), since several records have a
  \<open>name\<close>, a \<open>measurementType\<close> or an \<open>amount\<close>. An array property is \<open>None\<close> when it holds
  no array.
\<close>

record surface =
  s_name :: "string option"
  s_measurementType :: "string option"
  s_width :: "rat option"
  s_height :: "rat option"
  s_sqft :: "rat option"
  s_manualSqft :: "bool option"
  s_linearFt :: "rat option"
  s_units :: "rat option"
  s_length :: "rat option"

record workItem =
  w_name :: "string option"
  w_customWorkTypeName :: "string option"
  w_type :: "string option"
  w_subtype :: "string option"
  w_description :: "string option"
  w_surfaces :: "surface js list option"
  w_materialCost :: "rat option"
  w_laborCost :: "rat option"
  w_notes :: "string option"
  w_measurementType :: "string option"
  w_categoryKey :: "string option"

record category =
  c_name :: "string option"
  c_key :: "string option"
  c_workItems :: "workItem js list option"

record miscFee =
  f_name :: "string option"
  f_amount :: "rat option"

record payment =
  p_date :: "string option"
  p_amount :: "rat option"
  p_method :: "string option"
  p_note :: "string option"
  p_isPaid :: "bool option"
  p_status :: "string option"

record settings =
  st_taxRate :: "rat option"
  st_transportationFee :: "rat option"
  st_wasteFactor :: "rat option"
  st_laborDiscount :: "rat option"
  st_markup :: "rat option"
  st_miscFees :: "miscFee list option"
  st_payments :: "payment js arrayInput"

record totals =
  t_materialCost :: rat
  t_laborCost :: rat
  t_laborCostBeforeDiscount :: rat
  t_laborDiscount :: rat
  t_wasteCost :: rat
  t_taxAmount :: rat
  t_markupAmount :: rat
  t_miscFeesTotal :: rat
  t_transportationFee :: rat
  t_subtotal :: rat
  t_total :: rat

record paymentDetails =
  pd_grandTotal :: rat
  pd_totalPaid :: rat
  pd_totalDue :: rat
  pd_depositAmount :: rat

text \<open>Of the customer info only the address properties are read or written here.\<close>

record customerInfo =
  ci_street :: "string option"
  ci_addressNumber :: "string option"
  ci_direction :: "string option"
  ci_streetName :: "string option"
  ci_streetType :: "string option"

record project =
  pr_userId :: string
  pr_customerInfo :: "customerInfo option"
  pr_categories :: "category js list option"
  pr_settings :: "settings js"
  pr_totals :: totals
  pr_paymentDetails :: paymentDetails

definition customWorkType :: string where
  "customWorkType = ''custom-work-type''"

section \<open>Unit Aggregator\<close>

text \<open>The body of the \<open>reduce\<close> callback of \<open>getUnits\<close> for a surface that is an object.\<close>

definition surfaceUnits :: "string option \<Rightarrow> surface \<Rightarrow> rat" where
  "surfaceUnits itemType s =
     (let type = orElse (s_measurementType s) itemType in
      if type = Some ''sqft'' then parseFloatOr0 (s_sqft s)
      else if type = Some ''linear-foot'' then parseFloatOr0 (s_linearFt s)
      else if type = Some ''by-unit'' then parseIntOr0 (s_units s)
      else 0)"

text \<open>
  A \<open>null\<close> surface is skipped. A primitive is skipped when falsy; when truthy all its
  properties are \<open>undefined\<close> and it adds 0.
\<close>

fun addSurface :: "string option \<Rightarrow> rat \<Rightarrow> surface js \<Rightarrow> rat" where
  "addSurface itemType acc Null = acc"
| "addSurface itemType acc Prim = acc"
| "addSurface itemType acc (Obj s) = acc + surfaceUnits itemType s"

fun getUnits :: "workItem js \<Rightarrow> rat" where
  "getUnits (Obj item) =
     (case w_surfaces item of
        None \<Rightarrow> 0
      | Some surfaces \<Rightarrow> foldl (addSurface (w_measurementType item)) 0 surfaces)"
| "getUnits _ = 0"

section \<open>Payment Aggregator\<close>

record paid =
  totalPaid :: rat
  depositAmount :: rat

text \<open>The callback of \<open>payments.forEach\<close>: only an object can have a truthy \<open>isPaid\<close>.\<close>

fun addPayment :: "paid \<Rightarrow> payment js \<Rightarrow> paid" where
  "addPayment acc (Obj p) =
     (if p_isPaid p = Some True then
        (let amount = numberOr0 (p_amount p) in
         \<lparr>totalPaid = totalPaid acc + amount,
          depositAmount = (if p_method p = Some ''Deposit''
                           then depositAmount acc + amount else depositAmount acc)\<rparr>)
      else acc)"
| "addPayment acc _ = acc"

fun parsePayments :: "payment js arrayInput \<Rightarrow> paid" where
  "parsePayments NotAnArray = \<lparr>totalPaid = 0, depositAmount = 0\<rparr>"
| "parsePayments Absent = foldl addPayment \<lparr>totalPaid = 0, depositAmount = 0\<rparr> []"
| "parsePayments (AnArray payments) =
     foldl addPayment \<lparr>totalPaid = 0, depositAmount = 0\<rparr> payments"

section \<open>Cost Totals Calculator\<close>

text \<open>
  The two running sums of \<open>calculateCostsAndTotals\<close>, which the controller calls with
  the array that the Sanitizer returned. Reading \<open>item.materialCost\<close> of a \<open>null\<close>
  item, or \<open>category.workItems\<close> of a \<open>null\<close> category, throws.
\<close>

fun addItem :: "rat \<times> rat \<Rightarrow> workItem js \<Rightarrow> error + rat \<times> rat" where
  "addItem (materialCost, laborCostBeforeDiscount) (Obj item) =
     (let units = getUnits (Obj item) in
      Inr (materialCost + numberOr0 (w_materialCost item) * units,
           laborCostBeforeDiscount + numberOr0 (w_laborCost item) * units))"
| "addItem (materialCost, laborCostBeforeDiscount) Prim =
     (let units = getUnits Prim in
      Inr (materialCost + numberOr0 None * units,
           laborCostBeforeDiscount + numberOr0 None * units))"
| "addItem acc Null = Inl TypeError"

fun addItems :: "rat \<times> rat \<Rightarrow> workItem js list \<Rightarrow> error + rat \<times> rat" where
  "addItems acc [] = Inr acc"
| "addItems acc (item # items) =
     (case addItem acc item of Inl e \<Rightarrow> Inl e | Inr acc' \<Rightarrow> addItems acc' items)"

text \<open>\<open>xs || []\<close> on an array property.\<close>

definition orEmpty :: "'a list option \<Rightarrow> 'a list" where
  "orEmpty xs = (case xs of None \<Rightarrow> [] | Some l \<Rightarrow> l)"

fun addCategory :: "rat \<times> rat \<Rightarrow> category js \<Rightarrow> error + rat \<times> rat" where
  "addCategory acc (Obj category) = addItems acc (orEmpty (c_workItems category))"
| "addCategory acc Prim = addItems acc (orEmpty None)"
| "addCategory acc Null = Inl TypeError"

fun addCategories :: "rat \<times> rat \<Rightarrow> category js list \<Rightarrow> error + rat \<times> rat" where
  "addCategories acc [] = Inr acc"
| "addCategories acc (category # categories) =
     (case addCategory acc category of
        Inl e \<Rightarrow> Inl e
      | Inr acc' \<Rightarrow> addCategories acc' categories)"

definition emptySettings :: settings where
  "emptySettings =
     \<lparr>st_taxRate = None, st_transportationFee = None, st_wasteFactor = None,
      st_laborDiscount = None, st_markup = None, st_miscFees = None, st_payments = Absent\<rparr>"

text \<open>\<open>settings || {}\<close>; a primitive has no properties either.\<close>

fun settingsOrEmpty :: "settings js \<Rightarrow> settings" where
  "settingsOrEmpty (Obj s) = s"
| "settingsOrEmpty _ = emptySettings"

definition calculateCostsAndTotals :: "category js list \<Rightarrow> settings js \<Rightarrow> error + totals" where
  "calculateCostsAndTotals categories settings =
     (case addCategories (0, 0) categories of
        Inl e \<Rightarrow> Inl e
      | Inr (materialCost, laborCostBeforeDiscount) \<Rightarrow>
          (let s = settingsOrEmpty settings;
               laborDiscountRate = numberOr0 (st_laborDiscount s);
               laborDiscountAmount = laborCostBeforeDiscount * laborDiscountRate;
               laborCost = laborCostBeforeDiscount - laborDiscountAmount;
               wasteFactorRate = numberOr0 (st_wasteFactor s);
               wasteCost = materialCost * wasteFactorRate;
               materialCostWithWaste = materialCost + wasteCost;
               subtotal = materialCostWithWaste + laborCost;
               markupRate = numberOr0 (st_markup s);
               markupAmount = subtotal * markupRate;
               taxRate = numberOr0 (st_taxRate s);
               taxAmount = subtotal * taxRate;
               miscFeesTotal =
                 foldl (\<lambda>acc f. acc + numberOr0 (f_amount f)) 0 (orEmpty (st_miscFees s));
               transportationFee = numberOr0 (st_transportationFee s);
               grandTotal = subtotal + markupAmount + taxAmount + miscFeesTotal + transportationFee
           in Inr \<lparr>t_materialCost = toFixed2 materialCost,
                   t_laborCost = toFixed2 laborCost,
                   t_laborCostBeforeDiscount = toFixed2 laborCostBeforeDiscount,
                   t_laborDiscount = toFixed2 laborDiscountAmount,
                   t_wasteCost = toFixed2 wasteCost,
                   t_taxAmount = toFixed2 taxAmount,
                   t_markupAmount = toFixed2 markupAmount,
                   t_miscFeesTotal = toFixed2 miscFeesTotal,
                   t_transportationFee = toFixed2 transportationFee,
                   t_subtotal = toFixed2 subtotal,
                   t_total = toFixed2 grandTotal\<rparr>))"

section \<open>Category and work item Sanitizer\<close>

text \<open>
  The object literal \<open>fixedItem\<close> that \<open>ensureCategoryKeys\<close> builds for a work item
  it keeps. It is built only from an item whose \<open>type\<close> is a non-empty string.
\<close>

definition fixedItem :: "string option \<Rightarrow> workItem \<Rightarrow> workItem" where
  "fixedItem key item =
     \<lparr>w_name = Some (orDefault (w_name item) ''Unnamed Work Item''),
      w_customWorkTypeName = Some (orDefault (w_customWorkTypeName item) []),
      w_type = map_option trim (w_type item),
      w_subtype = Some (orDefault (w_subtype item) []),
      w_description = Some (orDefault (w_description item) []),
      w_surfaces = Some (orEmpty (w_surfaces item)),
      w_materialCost = Some (numberOr0 (w_materialCost item)),
      w_laborCost = Some (numberOr0 (w_laborCost item)),
      w_notes = Some (orDefault (w_notes item) []),
      w_measurementType = Some (orDefault (w_measurementType item) ''sqft''),
      w_categoryKey = key\<rparr>"

text \<open>
  The work item loop: an entry that is no object is skipped, then an item without a
  type, then a custom item without a name. The test for the custom type reads
  \<open>item.type\<close> as it came; the rebuilt item holds it trimmed.
\<close>

fun validWorkItems :: "string option \<Rightarrow> workItem js list \<Rightarrow> workItem js list" where
  "validWorkItems key [] = []"
| "validWorkItems key (Obj item # items) =
     (if blank (w_type item) then validWorkItems key items
      else if w_type item = Some customWorkType \<and> blank (w_customWorkTypeName item)
      then validWorkItems key items
      else Obj (fixedItem key item) # validWorkItems key items)"
| "validWorkItems key (_ # items) = validWorkItems key items"

text \<open>The callback of \<open>categories.map\<close>, with the index of the category.\<close>

fun fixCategory :: "nat \<Rightarrow> category js \<Rightarrow> error + category js" where
  "fixCategory catIndex (Obj category) =
     (if \<not> truthy (c_key category) \<or> \<not> truthy (c_name category)
      then Inl (MissingFields catIndex)
      else Inr (Obj \<lparr>c_name = c_name category,
                      c_key = c_key category,
                      c_workItems =
                        Some (validWorkItems (c_key category) (orEmpty (c_workItems category)))\<rparr>))"
| "fixCategory catIndex other = Inr other"

fun mapCategories :: "nat \<Rightarrow> category js list \<Rightarrow> error + category js list" where
  "mapCategories catIndex [] = Inr []"
| "mapCategories catIndex (category # categories) =
     (case fixCategory catIndex category of
        Inl e \<Rightarrow> Inl e
      | Inr fixed \<Rightarrow>
          (case mapCategories (Suc catIndex) categories of
             Inl e \<Rightarrow> Inl e
           | Inr rest \<Rightarrow> Inr (fixed # rest)))"

text \<open>
  The callback of \<open>.filter\<close> keeps every category, but reads
  \<open>category.workItems.length\<close> first, which throws for an entry that \<open>map\<close> let
  through because it is no object.
\<close>

fun workItemsLength :: "category js \<Rightarrow> error + nat" where
  "workItemsLength (Obj category) =
     (case c_workItems category of None \<Rightarrow> Inl TypeError | Some items \<Rightarrow> Inr (length items))"
| "workItemsLength _ = Inl TypeError"

fun filterCategories :: "category js list \<Rightarrow> error + category js list" where
  "filterCategories [] = Inr []"
| "filterCategories (category # categories) =
     (case workItemsLength category of
        Inl e \<Rightarrow> Inl e
      | Inr n \<Rightarrow>
          (case filterCategories categories of
             Inl e \<Rightarrow> Inl e
           | Inr rest \<Rightarrow> Inr (category # rest)))"

fun ensureCategoryKeys :: "category js arrayInput \<Rightarrow> error + category js list" where
  "ensureCategoryKeys (AnArray categories) =
     (case mapCategories 0 categories of
        Inl e \<Rightarrow> Inl e
      | Inr fixed \<Rightarrow> filterCategories fixed)"
| "ensureCategoryKeys _ = Inr []"

section \<open>The create and update controller, up to the persistence call\<close>

datatype detail = NoCategory | SanitizerFailed error | NoCompleteWorkItems

datatype response = Status400 detail | Status500

record body =
  b_customerInfo :: "customerInfo option"
  b_categories :: "category js arrayInput"
  b_settings :: "settings js option"

text \<open>
  The debug log at the head of \<open>createOrUpdate\<close> reads \<open>cat.name\<close> of every entry of
  \<open>categories\<close> and \<open>item.name\<close> of every entry of \<open>cat.workItems || []\<close>, which
  throws a \<open>TypeError\<close> when the entry is \<open>null\<close>.
\<close>

fun logItemThrows :: "workItem js \<Rightarrow> bool" where
  "logItemThrows Null = True"
| "logItemThrows _ = False"

fun logCategoryThrows :: "category js \<Rightarrow> bool" where
  "logCategoryThrows Null = True"
| "logCategoryThrows Prim = False"
| "logCategoryThrows (Obj cat) = list_ex logItemThrows (orEmpty (c_workItems cat))"

text \<open>\<open>fixedCategories.reduce((sum, cat) => sum + cat.workItems.length, 0)\<close>.\<close>

fun sumWorkItems :: "nat \<Rightarrow> category js list \<Rightarrow> error + nat" where
  "sumWorkItems acc [] = Inr acc"
| "sumWorkItems acc (cat # cats) =
     (case workItemsLength cat of
        Inl e \<Rightarrow> Inl e
      | Inr n \<Rightarrow> sumWorkItems (acc + n) cats)"

text \<open>\<open>settings.payments\<close>.\<close>

fun settingsPayments :: "settings js \<Rightarrow> error + payment js arrayInput" where
  "settingsPayments Null = Inl TypeError"
| "settingsPayments Prim = Inr Absent"
| "settingsPayments (Obj s) = Inr (st_payments s)"

text \<open>
  \<open>createOrUpdate\<close> from the destructuring of the request body to the assembled
  \<open>projectData\<close>, which it hands to the persistence layer. An error thrown inside the
  inner \<open>try\<close> becomes a 400 response; any other error reaches the outer \<open>catch\<close>,
  which answers 500 for a \<open>TypeError\<close>.
\<close>

definition createOrUpdate :: "string \<Rightarrow> body \<Rightarrow> response + project" where
  "createOrUpdate userId reqBody =
     (let categories = (case b_categories reqBody of Absent \<Rightarrow> AnArray [] | c \<Rightarrow> c);
          settings = (case b_settings reqBody of None \<Rightarrow> Obj emptySettings | Some s \<Rightarrow> s)
      in case categories of
           AnArray cats \<Rightarrow>
             if list_ex logCategoryThrows cats then Inl Status500
             else if length cats = 0 then Inl (Status400 NoCategory)
             else
               (case ensureCategoryKeys categories of
                  Inl e \<Rightarrow> Inl (Status400 (SanitizerFailed e))
                | Inr fixedCategories \<Rightarrow>
                    (case sumWorkItems 0 fixedCategories of
                       Inl e \<Rightarrow> Inl (Status400 (SanitizerFailed e))
                     | Inr totalWorkItems \<Rightarrow>
                         if totalWorkItems = 0 then Inl (Status400 NoCompleteWorkItems)
                         else
                           (case calculateCostsAndTotals fixedCategories settings of
                              Inl e \<Rightarrow> Inl Status500
                            | Inr costs \<Rightarrow>
                                (case settingsPayments settings of
                                   Inl e \<Rightarrow> Inl Status500
                                 | Inr payments \<Rightarrow>
                                     (let grandTotal = t_total costs;
                                          p = parsePayments payments;
                                          totalDue = max 0 (grandTotal - totalPaid p)
                                      in Inr \<lparr>pr_userId = userId,
                                              pr_customerInfo = b_customerInfo reqBody,
                                              pr_categories = Some fixedCategories,
                                              pr_settings = settings,
                                              pr_totals = costs,
                                              pr_paymentDetails =
                                                \<lparr>pd_grandTotal = grandTotal,
                                                 pd_totalPaid = totalPaid p,
                                                 pd_totalDue = totalDue,
                                                 pd_depositAmount = depositAmount p\<rparr>\<rparr>)))))
         | _ \<Rightarrow> Inl Status500)"

section \<open>Taxonomy Validator\<close>

definition VALID_WORK_TYPES :: "(string \<times> string list) list" where
  "VALID_WORK_TYPES =
    [(''kitchen'',
      [''kitchen-flooring'', ''kitchen-tiles'', ''kitchen-backsplash'', ''kitchen-ceiling'',
       ''kitchen-walls'', ''kitchen-countertop-surface'', ''kitchen-cabinet-doors'',
       ''kitchen-island-top'', ''kitchen-cabinets'', ''kitchen-countertops'', ''kitchen-trim'',
       ''kitchen-island-edge'', ''kitchen-crown-molding'', ''kitchen-toe-kicks'',
       ''kitchen-cabinet-lighting'', ''kitchen-under-cabinet-strips'', ''kitchen-sink'',
       ''kitchen-faucet'', ''kitchen-lighting'', ''kitchen-appliance'', ''kitchen-hood'',
       ''kitchen-garbage-disposal'', ''kitchen-cabinet-hardware'', ''kitchen-outlet'',
       ''kitchen-switch'', ''kitchen-pantry-organizer'']),
     (''bathroom'',
      [''bathroom-flooring'', ''bathroom-tiles'', ''bathroom-shower-tiles'', ''bathroom-walls'',
       ''bathroom-ceiling'', ''bathroom-shower-floor'', ''bathroom-vanity-top'',
       ''bathroom-mirror-wall'', ''bathroom-vanity'', ''bathroom-trim'',
       ''bathroom-wainscoting'', ''bathroom-shower-trim'', ''bathroom-tub-surround'',
       ''bathroom-chair-rail'', ''bathroom-towel-bars'', ''bathroom-grab-bars'',
       ''bathroom-faucet'', ''bathroom-shower-faucet'', ''bathroom-fan'',
       ''bathroom-towel-warmer'', ''bathroom-toilet'', ''bathroom-mirror'',
       ''bathroom-lighting'', ''bathroom-bathtub'', ''bathroom-shower-ledge'',
       ''bathroom-medicine-cabinet'', ''bathroom-outlet'', ''bathroom-shower-door'']),
     (''living-room'',
      [''living-room-flooring'', ''living-room-walls'', ''living-room-ceiling'',
       ''living-room-accent-wall'', ''living-room-fireplace-surround'',
       ''living-room-built-in-shelving'', ''living-room-window-treatments'',
       ''living-room-trim'', ''living-room-crown-molding'', ''living-room-wainscoting'',
       ''living-room-chair-rail'', ''living-room-baseboard'', ''living-room-picture-ledge'',
       ''living-room-mantle'', ''living-room-cable-management'', ''living-room-lighting'',
       ''living-room-fireplace'', ''living-room-ceiling-fan'', ''living-room-tv-mount'',
       ''living-room-outlet'', ''living-room-switch'', ''living-room-window'',
       ''living-room-door'', ''living-room-built-in-cabinet'', ''living-room-speaker'']),
     (''bedroom'',
      [''bedroom-flooring'', ''bedroom-walls'', ''bedroom-ceiling'', ''bedroom-closet-interior'',
       ''bedroom-accent-wall'', ''bedroom-window-treatments'', ''bedroom-headboard-wall'',
       ''bedroom-trim'', ''bedroom-closet-shelves'', ''bedroom-crown-molding'',
       ''bedroom-baseboard'', ''bedroom-chair-rail'', ''bedroom-closet-rods'',
       ''bedroom-window-sills'', ''bedroom-built-in-bench'', ''bedroom-lighting'',
       ''bedroom-ceiling-fan'', ''bedroom-window'', ''bedroom-closet-organizer'',
       ''bedroom-door'', ''bedroom-outlet'', ''bedroom-switch'', ''bedroom-closet-door'',
       ''bedroom-built-in-drawer'', ''bedroom-mirror'']),
     (''exterior'',
      [''exterior-deck'', ''exterior-siding'', ''exterior-painting'', ''exterior-roofing'',
       ''exterior-patio'', ''exterior-driveway'', ''exterior-walkway'',
       ''exterior-retaining-wall'', ''exterior-fencing'', ''exterior-trim'',
       ''exterior-gutters'', ''exterior-deck-railing'', ''exterior-soffit'',
       ''exterior-fascia'', ''exterior-foundation-trim'', ''exterior-landscape-edging'',
       ''exterior-door'', ''exterior-window'', ''exterior-lighting'', ''exterior-mailbox'',
       ''exterior-gate'', ''exterior-outlet'', ''exterior-shutter'', ''exterior-downspout'',
       ''exterior-vent'', ''exterior-house-number'']),
     (''garage'',
      [''garage-flooring'', ''garage-walls'', ''garage-ceiling'', ''garage-door-opener'',
       ''garage-storage-shelves'', ''garage-workbench'', ''garage-cabinets'',
       ''garage-lighting'', ''garage-outlet'', ''garage-insulation'', ''garage-epoxy-coating'',
       ''garage-door'', ''garage-window'', ''garage-ventilation'', ''garage-wall-organizer'',
       ''garage-ceiling-storage'', ''garage-bike-rack'', ''garage-tool-storage'']),
     (''electricity'',
      [''electricity-wiring'', ''electricity-panel-upgrade'', ''electricity-circuit-breaker'',
       ''electricity-outlet-installation'', ''electricity-lighting-fixture'',
       ''electricity-ceiling-fan-installation'', ''electricity-switch-installation'',
       ''electricity-surge-protector'', ''electricity-grounding-system'',
       ''electricity-smoke-detector-installation'', ''electricity-smart-home-integration'',
       ''electricity-exterior-lighting'', ''electricity-appliance-circuit'']),
     (''plumbing'',
      [''plumbing-pipe-installation'', ''plumbing-faucet-installation'',
       ''plumbing-toilet-installation'', ''plumbing-shower-installation'',
       ''plumbing-sink-installation'', ''plumbing-water-heater'', ''plumbing-drain-cleaning'',
       ''plumbing-leak-repair'', ''plumbing-valve-replacement'', ''plumbing-sump-pump'',
       ''plumbing-water-line'', ''plumbing-sewer-line'']),
     (''hallway'',
      [''hallway-flooring'', ''hallway-walls'', ''hallway-ceiling'', ''hallway-lighting'',
       ''hallway-trim'', ''hallway-baseboard'', ''hallway-crown-molding'',
       ''hallway-wainscoting'', ''hallway-door'', ''hallway-runner'',
       ''hallway-wall-art-frame'', ''hallway-console-table'', ''hallway-mirror'']),
     (''general'',
      [''general-drywall'', ''general-painting'', ''general-flooring'', ''general-ceiling'',
       ''general-wall-repair'', ''general-insulation'', ''general-paneling'',
       ''general-wallpaper'', ''general-trim'', ''general-molding'', ''general-chair-rail'',
       ''general-baseboard'', ''general-door-frame'', ''general-window-frame'',
       ''general-pipe-covering'', ''general-conduit-covering'', ''general-lighting'',
       ''general-window'', ''general-door'', ''general-outlet'', ''general-switch'',
       ''general-smoke-detector'', ''general-thermostat'', ''general-ceiling-medallion'',
       ''general-vent-cover'', ''general-access-panel'']),
     (''laundry'',
      [''laundry-flooring'', ''laundry-walls'', ''laundry-ceiling'', ''laundry-cabinets'',
       ''laundry-washer'', ''laundry-dryer'', ''laundry-sink'', ''laundry-shelving'',
       ''laundry-folding-table'', ''laundry-countertop'', ''laundry-lighting'',
       ''laundry-outlet'', ''laundry-dryer-vent'', ''laundry-trim'', ''laundry-baseboard'',
       ''laundry-crown-molding'', ''laundry-wainscoting'', ''laundry-door'',
       ''laundry-utility-sink-faucet'', ''laundry-storage-rack'', ''laundry-ironing-station'',
       ''laundry-hanging-rods'', ''laundry-ventilation-fan'']),
     (''dining-room'',
      [''dining-room-flooring'', ''dining-room-walls'', ''dining-room-ceiling'',
       ''dining-room-chandelier'', ''dining-room-built-in-buffet'',
       ''dining-room-display-cabinet'', ''dining-room-window-treatments'', ''dining-room-trim'',
       ''dining-room-crown-molding'', ''dining-room-wainscoting'', ''dining-room-chair-rail'',
       ''dining-room-baseboard'', ''dining-room-lighting'', ''dining-room-outlet'',
       ''dining-room-switch'', ''dining-room-window'', ''dining-room-door'',
       ''dining-room-accent-wall'', ''dining-room-wall-art-frame'',
       ''dining-room-ceiling-medallion'', ''dining-room-serving-hutch'']),
     (''basement'',
      [''basement-flooring'', ''basement-walls'', ''basement-ceiling'',
       ''basement-waterproofing'', ''basement-egress-window'', ''basement-sump-pump'',
       ''basement-drop-ceiling'', ''basement-insulation'', ''basement-lighting'',
       ''basement-trim'', ''basement-baseboard'', ''basement-staircase'', ''basement-handrail'',
       ''basement-storage-shelves'', ''basement-built-in-bar'', ''basement-home-theater'',
       ''basement-outlet'', ''basement-switch'', ''basement-ventilation'',
       ''basement-fireplace'', ''basement-accent-wall'']),
     (''walk-in-closet'',
      [''walk-in-closet-flooring'', ''walk-in-closet-walls'', ''walk-in-closet-ceiling'',
       ''walk-in-closet-shelves'', ''walk-in-closet-rods'', ''walk-in-closet-drawers'',
       ''walk-in-closet-organizer'', ''walk-in-closet-lighting'', ''walk-in-closet-mirror'',
       ''walk-in-closet-door'', ''walk-in-closet-bench'', ''walk-in-closet-island'',
       ''walk-in-closet-shoe-rack'', ''walk-in-closet-trim'', ''walk-in-closet-baseboard'',
       ''walk-in-closet-crown-molding'', ''walk-in-closet-accent-wall'',
       ''walk-in-closet-carpet'', ''walk-in-closet-storage-bins'', ''walk-in-closet-valet-rod''])]"

text \<open>
  \<open>VALID_WORK_TYPES[categoryKey]\<close> reads a property of an object literal: an own
  property, or one that every object inherits from \<open>Object.prototype\<close>, or
  \<open>undefined\<close>.
\<close>

datatype 'a property = Undefined | Inherited | Own 'a

definition objectPrototypeKeys :: "string list" where
  "objectPrototypeKeys =
     [''constructor'', ''__defineGetter__'', ''__defineSetter__'', ''hasOwnProperty'',
      ''__lookupGetter__'', ''__lookupSetter__'', ''isPrototypeOf'', ''propertyIsEnumerable'',
      ''toString'', ''valueOf'', ''__proto__'', ''toLocaleString'']"

definition getProperty :: "(string \<times> 'a) list \<Rightarrow> string \<Rightarrow> 'a property" where
  "getProperty obj k =
     (case map_of obj k of
        Some v \<Rightarrow> Own v
      | None \<Rightarrow> if k \<in> set objectPrototypeKeys then Inherited else Undefined)"

definition startsWith :: "string \<Rightarrow> string \<Rightarrow> bool" where
  "startsWith s p = (take (length p) s = p)"

text \<open>
  An inherited property is a function or an object: it is truthy and has no
  \<open>includes\<close>, so the call \<open>validTypes.includes(workType)\<close> throws.
\<close>

fun validateWorkType :: "string option \<Rightarrow> string option \<Rightarrow> error + bool" where
  "validateWorkType (Some categoryKey) (Some workType) =
     (if categoryKey = [] \<or> workType = [] then Inr False
      else if workType = customWorkType then Inr True
      else if startsWith categoryKey ''custom_'' then Inr True
      else
        (case getProperty VALID_WORK_TYPES categoryKey of
           Undefined \<Rightarrow> Inr False
         | Inherited \<Rightarrow> Inl TypeError
         | Own validTypes \<Rightarrow> Inr (workType \<in> set validTypes)))"
| "validateWorkType _ _ = Inr False"

section \<open>Invariant Enforcer: the pre-validate hook\<close>

definition normalizeToCanonicalMeasurementType :: "string option \<Rightarrow> string" where
  "normalizeToCanonicalMeasurementType type =
     (case type of
        None \<Rightarrow> ''sqft''
      | Some v \<Rightarrow>
          if v = [] then ''sqft''
          else
            (let t = trim (toLowerCase v) in
             if t \<in> set [''sqft'', ''square-foot'', ''square foot'', ''single-surface'']
             then ''sqft''
             else if t \<in> set [''linear-foot'', ''linear ft'', ''linear''] then ''linear-foot''
             else if t \<in> set [''by-unit'', ''by unit'', ''unit'', ''units''] then ''by-unit''
             else ''sqft''))"

text \<open>\<open>parts.filter(Boolean)\<close> and \<open>parts.join(' ')\<close>.\<close>

fun filterBoolean :: "string option list \<Rightarrow> string list" where
  "filterBoolean [] = []"
| "filterBoolean (None # parts) = filterBoolean parts"
| "filterBoolean (Some v # parts) = (if v = [] then filterBoolean parts else v # filterBoolean parts)"

fun join :: "string \<Rightarrow> string list \<Rightarrow> string" where
  "join sep [] = []"
| "join sep [x] = x"
| "join sep (x # y # ys) = x @ sep @ join sep (y # ys)"

definition hookCustomerInfo :: "customerInfo \<Rightarrow> customerInfo" where
  "hookCustomerInfo ci =
     (if truthy (ci_addressNumber ci) \<or> truthy (ci_streetName ci)
      then ci\<lparr>ci_street :=
                Some (trim (join '' '' (filterBoolean
                  [ci_addressNumber ci, ci_direction ci, ci_streetName ci, ci_streetType ci])))\<rparr>
      else ci)"

fun hookSurface :: "surface js \<Rightarrow> surface js" where
  "hookSurface (Obj surface) =
     Obj (surface\<lparr>s_measurementType :=
                    Some (normalizeToCanonicalMeasurementType (s_measurementType surface))\<rparr>)"
| "hookSurface other = other"

text \<open>An assignment to a property of a primitive is dropped (the module is not strict).\<close>

fun hookItem :: "string option \<Rightarrow> workItem js \<Rightarrow> workItem js" where
  "hookItem key (Obj item) =
     Obj (item\<lparr>w_categoryKey := key,
               w_measurementType :=
                 Some (normalizeToCanonicalMeasurementType (w_measurementType item)),
               w_surfaces := map_option (map hookSurface) (w_surfaces item)\<rparr>)"
| "hookItem key other = other"

fun hookCategory :: "category js \<Rightarrow> category js" where
  "hookCategory (Obj category) =
     (case c_workItems category of
        None \<Rightarrow> Obj category
      | Some items \<Rightarrow> Obj (category\<lparr>c_workItems := Some (map (hookItem (c_key category)) items)\<rparr>))"
| "hookCategory other = other"

definition preValidate :: "project \<Rightarrow> project" where
  "preValidate doc =
     doc\<lparr>pr_customerInfo := map_option hookCustomerInfo (pr_customerInfo doc),
         pr_categories := map_option (map hookCategory) (pr_categories doc)\<rparr>"

section \<open>Corruption Repair Service\<close>

text \<open>
  The loops of \<open>validateAndRepairProjects\<close> and of the repairing \<open>show\<close> over the
  categories and work items of one project: the repaired value and the flag
  \<open>needsRepair\<close>. They read \<open>category.workItems\<close> and \<open>item.type\<close> unguarded.
\<close>

definition corrupted :: "workItem \<Rightarrow> bool" where
  "corrupted item = (w_type item = Some customWorkType \<and> blank (w_customWorkTypeName item))"

fun repairItem :: "workItem js \<Rightarrow> error + workItem js \<times> bool" where
  "repairItem (Obj item) =
     (if corrupted item
      then Inr (Obj (item\<lparr>w_customWorkTypeName := Some ''Unnamed Custom Work''\<rparr>), True)
      else Inr (Obj item, False))"
| "repairItem Prim = Inr (Prim, False)"
| "repairItem Null = Inl TypeError"

fun repairItems :: "workItem js list \<Rightarrow> error + workItem js list \<times> bool" where
  "repairItems [] = Inr ([], False)"
| "repairItems (item # items) =
     (case repairItem item of
        Inl e \<Rightarrow> Inl e
      | Inr (item', needs) \<Rightarrow>
          (case repairItems items of
             Inl e \<Rightarrow> Inl e
           | Inr (items', needs') \<Rightarrow> Inr (item' # items', needs \<or> needs')))"

fun repairCategory :: "category js \<Rightarrow> error + category js \<times> bool" where
  "repairCategory (Obj category) =
     (case c_workItems category of
        None \<Rightarrow> Inl TypeError
      | Some items \<Rightarrow>
          (case repairItems items of
             Inl e \<Rightarrow> Inl e
           | Inr (items', needs) \<Rightarrow> Inr (Obj (category\<lparr>c_workItems := Some items'\<rparr>), needs)))"
| "repairCategory _ = Inl TypeError"

fun repairCategories :: "category js list \<Rightarrow> error + category js list \<times> bool" where
  "repairCategories [] = Inr ([], False)"
| "repairCategories (category # categories) =
     (case repairCategory category of
        Inl e \<Rightarrow> Inl e
      | Inr (category', needs) \<Rightarrow>
          (case repairCategories categories of
             Inl e \<Rightarrow> Inl e
           | Inr (categories', needs') \<Rightarrow> Inr (category' # categories', needs \<or> needs')))"

definition repairProject :: "project \<Rightarrow> error + project \<times> bool" where
  "repairProject doc =
     (case pr_categories doc of
        None \<Rightarrow> Inl TypeError
      | Some categories \<Rightarrow>
          (case repairCategories categories of
             Inl e \<Rightarrow> Inl e
           | Inr (categories', needs) \<Rightarrow> Inr (doc\<lparr>pr_categories := Some categories'\<rparr>, needs)))"

text \<open>
  The store is the list of the persisted projects with their identifiers;
  \<open>saveFails\<close> tells for which of them \<open>project.save\<close> throws. A failed save is
  logged and the scan goes on; the result is the store after the scan and the
  identifiers of the repaired projects. An error thrown by the loops of a project is
  not caught: the whole call fails.
\<close>

fun validateAndRepairProjects ::
  "(string \<Rightarrow> bool) \<Rightarrow> (string \<times> project) list \<Rightarrow> error + (string \<times> project) list \<times> string list" where
  "validateAndRepairProjects saveFails [] = Inr ([], [])"
| "validateAndRepairProjects saveFails ((pid, doc) # projects) =
     (case repairProject doc of
        Inl e \<Rightarrow> Inl e
      | Inr (doc', needsRepair) \<Rightarrow>
          (case validateAndRepairProjects saveFails projects of
             Inl e \<Rightarrow> Inl e
           | Inr (store, repairs) \<Rightarrow>
               if needsRepair \<and> \<not> saveFails pid then Inr ((pid, doc') # store, pid # repairs)
               else Inr ((pid, doc) # store, repairs)))"

text \<open>
  The repairing \<open>show\<close> for a project that was found: the response and the project as
  it is stored afterwards. The repaired project is sent even when the save failed. The
  log line before the response reads \<open>project.customerInfo.projectName\<close>.
\<close>

definition showProject :: "bool \<Rightarrow> project \<Rightarrow> (response + project) \<times> project" where
  "showProject saveFails doc =
     (case repairProject doc of
        Inl e \<Rightarrow> (Inl Status500, doc)
      | Inr (doc', needsRepair) \<Rightarrow>
          (let stored = (if needsRepair \<and> \<not> saveFails then doc' else doc) in
           case pr_customerInfo doc' of
             None \<Rightarrow> (Inl Status500, stored)
           | Some customerInfo \<Rightarrow> (Inr doc', stored)))"

section \<open>Notions used to state the properties\<close>

text \<open>The entries of an array that are objects, in order.\<close>

fun objects :: "'a js list \<Rightarrow> 'a list" where
  "objects [] = []"
| "objects (Obj x # xs) = x # objects xs"
| "objects (_ # xs) = objects xs"

text \<open>All work items of a category tree, category by category.\<close>

definition workItemsOf :: "category js list \<Rightarrow> workItem list" where
  "workItemsOf cats = concat (map (\<lambda>cat. objects (orEmpty (c_workItems cat))) (objects cats))"

text \<open>No category and no work item of the tree is \<open>null\<close>.\<close>

definition noNullEntry :: "category js list \<Rightarrow> bool" where
  "noNullEntry cats =
     (\<forall>c\<in>set cats. c \<noteq> Null \<and> (\<forall>cat. c = Obj cat \<longrightarrow> Null \<notin> set (orEmpty (c_workItems cat))))"

text \<open>The properties of a surface that the unit count may depend on.\<close>

definition unitsInputs :: "surface \<Rightarrow> string option \<times> rat option \<times> rat option \<times> rat option" where
  "unitsInputs s = (s_measurementType s, s_sqft s, s_linearFt s, s_units s)"

text \<open>Truncation of a number to an integer, towards zero.\<close>

definition truncate :: "rat \<Rightarrow> rat" where
  "truncate x = sgn x * of_int \<lfloor>\<bar>x\<bar>\<rfloor>"

text \<open>
  The contribution of one surface as the specification words it: the surface's own
  measurement type if present, else the item's; the area type reads \<open>sqft\<close>, the
  linear type \<open>linearFt\<close>, the by-unit type \<open>units\<close> truncated to an integer; any other
  type gives 0.
\<close>

definition specSurfaceUnits :: "string option \<Rightarrow> surface \<Rightarrow> rat" where
  "specSurfaceUnits itemType s =
     (let type = (if truthy (s_measurementType s) then s_measurementType s else itemType) in
      if type = Some ''sqft'' then numberOr0 (s_sqft s)
      else if type = Some ''linear-foot'' then numberOr0 (s_linearFt s)
      else if type = Some ''by-unit'' then truncate (numberOr0 (s_units s))
      else 0)"

text \<open>The raw cost sums of the specification: rate times unit count, over all work items.\<close>

definition materialCostRaw :: "category js list \<Rightarrow> rat" where
  "materialCostRaw categories =
     (\<Sum>item\<leftarrow>workItemsOf categories. numberOr0 (w_materialCost item) * getUnits (Obj item))"

definition laborCostRaw :: "category js list \<Rightarrow> rat" where
  "laborCostRaw categories =
     (\<Sum>item\<leftarrow>workItemsOf categories. numberOr0 (w_laborCost item) * getUnits (Obj item))"

definition miscFeesSum :: "settings \<Rightarrow> rat" where
  "miscFeesSum s = (\<Sum>f\<leftarrow>orEmpty (st_miscFees s). numberOr0 (f_amount f))"

text \<open>The payments that count as paid.\<close>

definition paidPayments :: "payment js list \<Rightarrow> payment list" where
  "paidPayments ps = filter (\<lambda>p. p_isPaid p = Some True) (objects ps)"

subsection \<open>Concrete inputs\<close>

text \<open>
  The kitchen of the specification's examples: one floor of 100 square feet at a
  material rate of 2 and a labor rate of 3; tax 8 percent, waste 10 percent, labor
  discount 50 percent.
\<close>

definition exampleSurface :: surface where
  "exampleSurface =
     \<lparr>s_name = Some ''Floor'', s_measurementType = Some ''sqft'', s_width = Some 10,
      s_height = Some 10, s_sqft = Some 100, s_manualSqft = Some False, s_linearFt = Some 0,
      s_units = Some 0, s_length = Some 0\<rparr>"

definition exampleItem :: workItem where
  "exampleItem =
     \<lparr>w_name = Some ''Floor'', w_customWorkTypeName = None, w_type = Some ''kitchen-flooring'',
      w_subtype = None, w_description = None, w_surfaces = Some [Obj exampleSurface],
      w_materialCost = Some 2, w_laborCost = Some 3, w_notes = None,
      w_measurementType = Some ''sqft'', w_categoryKey = None\<rparr>"

definition exampleCategory :: category where
  "exampleCategory =
     \<lparr>c_name = Some ''Kitchen'', c_key = Some ''kitchen'', c_workItems = Some [Obj exampleItem]\<rparr>"

definition exampleSettings :: settings where
  "exampleSettings =
     \<lparr>st_taxRate = Some (8 / 100), st_transportationFee = None, st_wasteFactor = Some (1 / 10),
      st_laborDiscount = Some (1 / 2), st_markup = Some 0, st_miscFees = None,
      st_payments = Absent\<rparr>"

text \<open>What the Sanitizer makes of the example kitchen.\<close>

definition exampleFixed :: category where
  "exampleFixed =
     \<lparr>c_name = Some ''Kitchen'', c_key = Some ''kitchen'',
      c_workItems = Some [Obj (fixedItem (Some ''kitchen'') exampleItem)]\<rparr>"

text \<open>The same floor with other dimensions and another name, but the same \<open>sqft\<close>.\<close>

definition resizedSurface :: surface where
  "resizedSurface =
     exampleSurface\<lparr>s_name := Some ''Wall'', s_width := Some 4, s_height := Some 25,
       s_manualSqft := Some True, s_length := Some 7\<rparr>"

text \<open>A by-unit item with a single surface of \<open>5e-7\<close> units.\<close>

definition tinyUnitsItem :: workItem where
  "tinyUnitsItem =
     exampleItem\<lparr>w_measurementType := Some ''by-unit'',
       w_surfaces := Some [Obj (exampleSurface\<lparr>s_measurementType := None,
                                               s_units := Some (5 / 10 ^ 7)\<rparr>)]\<rparr>"

text \<open>Items that the Sanitizer drops, and a category without a name.\<close>

definition blankTypeItem :: workItem where
  "blankTypeItem = exampleItem\<lparr>w_type := Some ''  ''\<rparr>"

definition unnamedCustomItem :: workItem where
  "unnamedCustomItem =
     exampleItem\<lparr>w_type := Some ''custom-work-type'', w_customWorkTypeName := Some '' ''\<rparr>"

definition mixedCategory :: category where
  "mixedCategory =
     exampleCategory\<lparr>c_workItems :=
       Some [Prim, Obj blankTypeItem, Obj unnamedCustomItem, Obj exampleItem]\<rparr>"

text \<open>
  A custom item without a name whose type has a space before the marker, and what
  the Sanitizer makes of a kitchen that holds only this item.
\<close>

definition paddedCustomItem :: workItem where
  "paddedCustomItem =
     exampleItem\<lparr>w_type := Some '' custom-work-type'', w_customWorkTypeName := Some []\<rparr>"

definition paddedFixed :: category where
  "paddedFixed =
     \<lparr>c_name = Some ''Kitchen'', c_key = Some ''kitchen'',
      c_workItems = Some [Obj (fixedItem (Some ''kitchen'') paddedCustomItem)]\<rparr>"

definition namelessCategory :: category where
  "namelessCategory = exampleCategory\<lparr>c_name := None\<rparr>"

text \<open>The work items of a project document.\<close>

definition projectItems :: "project \<Rightarrow> workItem list" where
  "projectItems doc = workItemsOf (orEmpty (pr_categories doc))"

text \<open>
  The payments of the specification's example, with a \<open>null\<close> entry and an unpaid
  payment added, and a request that carries them.
\<close>

definition examplePayments :: "payment js list" where
  "examplePayments =
     [Obj \<lparr>p_date = Some ''2024-01-05'', p_amount = Some 100, p_method = Some ''Cash'',
            p_note = None, p_isPaid = Some True, p_status = Some ''Paid''\<rparr>,
      Obj \<lparr>p_date = Some ''2024-01-02'', p_amount = Some 50, p_method = Some ''Deposit'',
            p_note = None, p_isPaid = Some True, p_status = Some ''Paid''\<rparr>,
      Null,
      Obj \<lparr>p_date = Some ''2024-02-01'', p_amount = Some 75, p_method = Some ''Check'',
            p_note = None, p_isPaid = Some False, p_status = Some ''Pending''\<rparr>]"



text \<open>A request whose only category holds a \<open>null\<close> entry before its one work item.\<close>

definition nullItemBody :: body where
  "nullItemBody =
     \<lparr>b_customerInfo = None,
      b_categories = AnArray [Obj (exampleCategory\<lparr>c_workItems := Some [Null, Obj exampleItem]\<rparr>)],
      b_settings = None\<rparr>"

text \<open>Project documents around a single work item.\<close>

definition exampleCustomer :: customerInfo where
  "exampleCustomer =
     \<lparr>ci_street = Some ''old'', ci_addressNumber = Some ''12'', ci_direction = None,
      ci_streetName = Some ''Main'', ci_streetType = Some ''St ''\<rparr>"

definition zeroTotals :: totals where
  "zeroTotals =
     \<lparr>t_materialCost = 0, t_laborCost = 0, t_laborCostBeforeDiscount = 0, t_laborDiscount = 0,
      t_wasteCost = 0, t_taxAmount = 0, t_markupAmount = 0, t_miscFeesTotal = 0,
      t_transportationFee = 0, t_subtotal = 0, t_total = 0\<rparr>"

definition projectOf :: "workItem \<Rightarrow> project" where
  "projectOf item =
     \<lparr>pr_userId = ''user'', pr_customerInfo = Some exampleCustomer,
      pr_categories = Some [Obj (exampleCategory\<lparr>c_workItems := Some [Obj item]\<rparr>)],
      pr_settings = Obj exampleSettings, pr_totals = zeroTotals,
      pr_paymentDetails =
        \<lparr>pd_grandTotal = 0, pd_totalPaid = 0, pd_totalDue = 0, pd_depositAmount = 0\<rparr>\<rparr>"

definition unnamedCustomProject :: project where
  "unnamedCustomProject = projectOf unnamedCustomItem"

text \<open>An item of a standard type that carries a custom name all the same.\<close>

definition namedStandardItem :: workItem where
  "namedStandardItem = exampleItem\<lparr>w_customWorkTypeName := Some ''Oak''\<rparr>"

text \<open>A store in which every save succeeds.\<close>

definition saveNeverFails :: "string \<Rightarrow> bool" where
  "saveNeverFails pid = False"

section \<open>Auxiliary facts\<close>

lemma set_objects: "set (objects xs) = {x. Obj x \<in> set xs}"
proof (induction xs)
  case Nil
  show ?case by simp
next
  case (Cons x xs)
  then show ?case by (cases x) auto
qed

lemma objects_map_Obj: "objects (map (\<lambda>x. Obj (f x)) xs) = map f xs"
  by (induction xs) simp_all

lemma foldl_add_sum_list:
  fixes g :: "'a \<Rightarrow> rat"
  shows "foldl (\<lambda>acc f. acc + g f) a xs = a + (\<Sum>f\<leftarrow>xs. g f)"
  by (induction xs arbitrary: a) (simp_all add: add.assoc)

lemma sum_list_filter_le:
  fixes f :: "'a \<Rightarrow> rat"
  shows "(\<And>x. x \<in> set xs \<Longrightarrow> 0 \<le> f x) \<Longrightarrow>
    (\<Sum>x\<leftarrow>filter P xs. f x) \<le> (\<Sum>x\<leftarrow>xs. f x)"
proof (induction xs)
  case Nil
  show ?case by simp
next
  case (Cons a xs)
  have "(\<Sum>x\<leftarrow>filter P xs. f x) \<le> (\<Sum>x\<leftarrow>xs. f x)"
    using Cons by simp
  moreover have "0 \<le> f a" using Cons.prems by simp
  ultimately show ?case by simp
qed


lemma floor_one_divide_numeral_rat:
  "\<lfloor>1 / numeral b :: rat\<rfloor> = 1 div numeral b"
  using floor_divide_of_int_eq [of 1 "numeral b", where ?'a = rat] by simp

text \<open>Trimming leaves nothing to trim.\<close>

lemma dropWhile_rev_dropWhile:
  "dropWhile P (rev (dropWhile P (rev (dropWhile P s)))) = rev (dropWhile P (rev (dropWhile P s)))"
proof -
  let ?a = "dropWhile P s"
  let ?b = "dropWhile P (rev ?a)"
  show ?thesis
  proof (cases "?b = []")
    case True
    show ?thesis unfolding True by simp
  next
    case False
    have "rev ?a = takeWhile P (rev ?a) @ ?b" by simp
    then have "?a = rev ?b @ rev (takeWhile P (rev ?a))"
      by (metis rev_append rev_rev_ident)
    then have "hd ?a = hd (rev ?b)" using False by (metis hd_append2 rev_is_Nil_conv)
    moreover have "?a \<noteq> []"
    proof
      assume e: "?a = []"
      have "?b = []" unfolding e by simp
      with False show False by blast
    qed
    then have "\<not> P (hd ?a)" by (rule hd_dropWhile)
    ultimately show ?thesis by (simp add: dropWhile_eq_self_iff)
  qed
qed

lemma trim_trim: "trim (trim s) = trim s"
proof -
  have "dropWhile isWhiteSpace (rev (trim s)) = rev (trim s)"
    by (simp add: trim_def dropWhile_eq_self_iff hd_dropWhile)
  then show ?thesis
    using dropWhile_rev_dropWhile [of isWhiteSpace s] by (simp add: trim_def)
qed

lemma blank_trim: "\<not> blank t \<Longrightarrow> \<not> blank (map_option trim t)"
  by (cases t) (simp_all add: blank_def trim_trim)



section \<open>Properties of the Unit Aggregator\<close>

lemma foldl_addSurface_sum:
  "foldl (addSurface t) acc xs = acc + (\<Sum>s\<leftarrow>objects xs. surfaceUnits t s)"
proof (induction xs arbitrary: acc)
  case Nil
  show ?case by simp
next
  case (Cons x xs)
  show ?case by (cases x) (simp_all add: Cons.IH)
qed

text \<open>The unit count is a sum over the surfaces that are objects; no surfaces give 0.\<close>

lemma getUnits_sum:
  "getUnits (Obj item) =
     (\<Sum>s\<leftarrow>objects (orEmpty (w_surfaces item)). surfaceUnits (w_measurementType item) s)"
  by (cases "w_surfaces item") (simp_all add: orEmpty_def foldl_addSurface_sum)

lemma parseInt_positional:
  "x = 0 \<or> (1 / 10 ^ 6 \<le> \<bar>x\<bar> \<and> \<bar>x\<bar> < 10 ^ 21) \<Longrightarrow> parseInt x = truncate x"
  by (auto simp: parseInt_def truncate_def)

text \<open>
  Where every \<open>units\<close> value is written in positional notation, the unit count is
  the sum that the specification describes.
\<close>

lemma getUnits_positional:
  assumes "\<And>s u. s \<in> set (objects (orEmpty (w_surfaces item))) \<Longrightarrow> s_units s = Some u \<Longrightarrow>
             u = 0 \<or> (1 / 10 ^ 6 \<le> \<bar>u\<bar> \<and> \<bar>u\<bar> < 10 ^ 21)"
  shows "getUnits (Obj item) =
     (\<Sum>s\<leftarrow>objects (orEmpty (w_surfaces item)). specSurfaceUnits (w_measurementType item) s)"
proof -
  have "surfaceUnits (w_measurementType item) s = specSurfaceUnits (w_measurementType item) s"
    if "s \<in> set (objects (orEmpty (w_surfaces item)))" for s
  proof (cases "s_units s")
    case None
    then show ?thesis
      by (simp add: surfaceUnits_def specSurfaceUnits_def orElse_def Let_def parseIntOr0_def
          parseFloatOr0_def numberOr0_def truncate_def)
  next
    case (Some u)
    from assms [OF that Some] have "parseInt u = truncate u" by (rule parseInt_positional)
    with Some show ?thesis
      by (simp add: surfaceUnits_def specSurfaceUnits_def orElse_def Let_def parseIntOr0_def
          parseFloatOr0_def numberOr0_def)
  qed
  then have "map (surfaceUnits (w_measurementType item)) (objects (orEmpty (w_surfaces item))) =
      map (specSurfaceUnits (w_measurementType item)) (objects (orEmpty (w_surfaces item)))"
    by simp
  then show ?thesis by (simp only: getUnits_sum)
qed

text \<open>
  Claim C2. The Unit Aggregator returns the sum over the surfaces of the field that
  the measurement type selects, the \<open>units\<close> field truncated to an integer. The code
  truncates with \<open>parseInt\<close>, which reads the decimal string of the number: a by-unit
  surface of \<open>5e-7\<close> units counts as 5 units, where truncation gives 0.
\<close>

theorem getUnits_by_unit_not_truncated:
  "getUnits (Obj tinyUnitsItem) = 5 \<and>
   (\<Sum>s\<leftarrow>objects (orEmpty (w_surfaces tinyUnitsItem)).
      specSurfaceUnits (w_measurementType tinyUnitsItem) s) = 0"
  by (simp add: tinyUnitsItem_def exampleItem_def exampleSurface_def surfaceUnits_def
      specSurfaceUnits_def orElse_def truthy_def Let_def parseIntOr0_def parseInt_def
      leadingDigit.simps numberOr0_def truncate_def orEmpty_def
      floor_one_divide_numeral_rat)

lemma addSurface_unitsInputs:
  "map_js unitsInputs x = map_js unitsInputs y \<Longrightarrow> addSurface t acc x = addSurface t acc y"
  by (cases x; cases y) (simp_all add: unitsInputs_def surfaceUnits_def Let_def)

lemma foldl_addSurface_unitsInputs:
  "map (map_js unitsInputs) xs = map (map_js unitsInputs) ys \<Longrightarrow>
   foldl (addSurface t) acc xs = foldl (addSurface t) acc ys"
proof (induction xs arbitrary: ys acc)
  case Nil
  then show ?case by simp
next
  case (Cons x xs)
  then obtain y ys' where ys: "ys = y # ys'" by (cases ys) auto
  with Cons.prems have h: "map_js unitsInputs x = map_js unitsInputs y"
    and t: "map (map_js unitsInputs) xs = map (map_js unitsInputs) ys'" by auto
  show ?case
    using Cons.IH [OF t] addSurface_unitsInputs [OF h] ys by simp
qed

text \<open>
  Claim C10. The result of the Unit Aggregator depends only on the measurement type,
  \<open>sqft\<close>, \<open>linearFt\<close> and \<open>units\<close> of each surface and on the measurement type of
  the item: two work items that agree on these have the same unit count, whatever
  the width, height, length, name and \<open>manualSqft\<close> of their surfaces are.
\<close>

theorem getUnits_reads_only_measured_fields:
  assumes "w_measurementType a = w_measurementType b"
    and "map_option (map (map_js unitsInputs)) (w_surfaces a) =
         map_option (map (map_js unitsInputs)) (w_surfaces b)"
  shows "getUnits (Obj a) = getUnits (Obj b)"
proof (cases "w_surfaces a")
  case None
  with assms(2) have "w_surfaces b = None" by (cases "w_surfaces b") auto
  with None show ?thesis by simp
next
  case (Some xs)
  with assms(2) obtain ys where ys: "w_surfaces b = Some ys"
    and eq: "map (map_js unitsInputs) xs = map (map_js unitsInputs) ys"
    by (cases "w_surfaces b") auto
  show ?thesis
    using foldl_addSurface_unitsInputs [OF eq] Some ys assms(1) by simp
qed

theorem getUnits_reads_only_measured_fields_witness:
  "w_measurementType exampleItem =
     w_measurementType (exampleItem\<lparr>w_surfaces := Some [Obj resizedSurface]\<rparr>) \<and>
   map_option (map (map_js unitsInputs)) (w_surfaces exampleItem) =
     map_option (map (map_js unitsInputs))
       (w_surfaces (exampleItem\<lparr>w_surfaces := Some [Obj resizedSurface]\<rparr>)) \<and>
   exampleSurface \<noteq> resizedSurface \<and>
   getUnits (Obj exampleItem) = getUnits (Obj (exampleItem\<lparr>w_surfaces := Some [Obj resizedSurface]\<rparr>))"
proof -
  have h1: "w_measurementType exampleItem =
     w_measurementType (exampleItem\<lparr>w_surfaces := Some [Obj resizedSurface]\<rparr>)"
    by simp
  have h2: "map_option (map (map_js unitsInputs)) (w_surfaces exampleItem) =
     map_option (map (map_js unitsInputs))
       (w_surfaces (exampleItem\<lparr>w_surfaces := Some [Obj resizedSurface]\<rparr>))"
    by (simp add: exampleItem_def resizedSurface_def unitsInputs_def)
  have h3: "exampleSurface \<noteq> resizedSurface"
    by (simp add: exampleSurface_def resizedSurface_def)
  from getUnits_reads_only_measured_fields [OF h1 h2] h1 h2 h3 show ?thesis by blast
qed

section \<open>Properties of the Sanitizer\<close>

text \<open>The work item loop keeps, rebuilt and in order, the objects that pass both tests.\<close>

lemma validWorkItems_filter:
  "validWorkItems key items =
     map (\<lambda>item. Obj (fixedItem key item))
       (filter (\<lambda>item. \<not> blank (w_type item) \<and>
                  \<not> (w_type item = Some customWorkType \<and> blank (w_customWorkTypeName item)))
          (objects items))"
  by (induction key items rule: validWorkItems.induct) auto

lemma mapCategories_Inr:
  "mapCategories k raw = Inr out \<Longrightarrow>
     length out = length raw \<and> (\<forall>i<length raw. fixCategory (k + i) (raw ! i) = Inr (out ! i))"
proof (induction raw arbitrary: k out)
  case Nil
  then show ?case by simp
next
  case (Cons c cs)
  from Cons.prems obtain c' rest where c': "fixCategory k c = Inr c'"
    and rest: "mapCategories (Suc k) cs = Inr rest" and out: "out = c' # rest"
    by (auto split: sum.splits)
  from Cons.IH [OF rest] have len: "length rest = length cs"
    and nth: "\<And>i. i < length cs \<Longrightarrow> fixCategory (Suc k + i) (cs ! i) = Inr (rest ! i)" by auto
  show ?case
  proof (intro conjI allI impI)
    show "length out = length (c # cs)" using len out by simp
  next
    fix i assume "i < length (c # cs)"
    then show "fixCategory (k + i) ((c # cs) ! i) = Inr (out ! i)"
      using c' nth out by (cases i) auto
  qed
qed

lemma filterCategories_Inr:
  "filterCategories cs = Inr out \<Longrightarrow> out = cs \<and> (\<forall>c\<in>set cs. \<exists>n. workItemsLength c = Inr n)"
  by (induction cs arbitrary: out) (auto split: sum.splits)

text \<open>The first category that lacks its key or its name stops the \<open>map\<close>.\<close>

lemma mapCategories_Inl:
  "i < length raw \<Longrightarrow> raw ! i = Obj cat \<Longrightarrow> \<not> truthy (c_key cat) \<or> \<not> truthy (c_name cat) \<Longrightarrow>
   \<exists>j\<le>i. mapCategories k raw = Inl (MissingFields (k + j)) \<and>
     (\<exists>c. raw ! j = Obj c \<and> (\<not> truthy (c_key c) \<or> \<not> truthy (c_name c)))"
proof (induction raw arbitrary: k i)
  case Nil
  then show ?case by simp
next
  case (Cons c cs)
  show ?case
  proof (cases "fixCategory k c")
    case (Inl e)
    then obtain c0 where "c = Obj c0" "\<not> truthy (c_key c0) \<or> \<not> truthy (c_name c0)" "e = MissingFields k"
      by (cases c) (auto split: if_splits)
    then show ?thesis using Inl by (intro exI [of _ 0]) auto
  next
    case (Inr c')
    have "i \<noteq> 0" using Cons.prems Inr by (cases i) (auto split: if_splits)
    then obtain i' where i: "i = Suc i'" by (cases i) auto
    with Cons.prems have "i' < length cs" "cs ! i' = Obj cat" by auto
    from Cons.IH [OF this Cons.prems(3), of "Suc k"]
    obtain j where "j \<le> i'" "mapCategories (Suc k) cs = Inl (MissingFields (Suc k + j))"
      "\<exists>c. cs ! j = Obj c \<and> (\<not> truthy (c_key c) \<or> \<not> truthy (c_name c))" by blast
    then show ?thesis using Inr i by (intro exI [of _ "Suc j"]) auto
  qed
qed

text \<open>
  When the Sanitizer returns, every entry of its input was a category with key and
  name, and the output holds one rebuilt category for each, in order.
\<close>

lemma ensureCategoryKeys_Inr:
  assumes "ensureCategoryKeys (AnArray raw) = Inr out"
  shows "length out = length raw"
    and "i < length raw \<Longrightarrow>
      \<exists>cat. raw ! i = Obj cat \<and> truthy (c_key cat) \<and> truthy (c_name cat) \<and>
        out ! i = Obj \<lparr>c_name = c_name cat, c_key = c_key cat,
          c_workItems = Some (validWorkItems (c_key cat) (orEmpty (c_workItems cat)))\<rparr>"
proof -
  from assms obtain fixed where m: "mapCategories 0 raw = Inr fixed"
    and f: "filterCategories fixed = Inr out"
    by (auto split: sum.splits)
  from filterCategories_Inr [OF f] have out: "out = fixed"
    and len: "\<And>c. c \<in> set fixed \<Longrightarrow> \<exists>n. workItemsLength c = Inr n" by auto
  from mapCategories_Inr [OF m] have l: "length fixed = length raw"
    and nth: "\<And>i. i < length raw \<Longrightarrow> fixCategory i (raw ! i) = Inr (fixed ! i)" by auto
  show "length out = length raw" using l out by simp
  assume i: "i < length raw"
  then have "fixed ! i \<in> set fixed" using l by simp
  then obtain n where n: "workItemsLength (fixed ! i) = Inr n" using len by blast
  show "\<exists>cat. raw ! i = Obj cat \<and> truthy (c_key cat) \<and> truthy (c_name cat) \<and>
        out ! i = Obj \<lparr>c_name = c_name cat, c_key = c_key cat,
          c_workItems = Some (validWorkItems (c_key cat) (orEmpty (c_workItems cat)))\<rparr>"
  proof (cases "raw ! i")
    case (Obj cat)
    then show ?thesis using nth [OF i] out by (auto split: if_splits)
  next
    case Null
    then show ?thesis using nth [OF i] n by simp
  next
    case Prim
    then show ?thesis using nth [OF i] n by simp
  qed
qed

lemma sanitized_items:
  assumes "ensureCategoryKeys (AnArray raw) = Inr out" and "c \<in> set out"
  shows "\<exists>cat items. c = Obj cat \<and> c_workItems cat = Some (map Obj items) \<and>
           (\<forall>item\<in>set items. \<not> blank (w_type item))"
proof -
  from assms(2) obtain i where i: "i < length out" and c: "c = out ! i"
    by (auto simp: in_set_conv_nth)
  from i have "i < length raw" using ensureCategoryKeys_Inr(1) [OF assms(1)] by simp
  from ensureCategoryKeys_Inr(2) [OF assms(1) this] obtain cat :: category where
    "out ! i = Obj \<lparr>c_name = c_name cat, c_key = c_key cat,
          c_workItems = Some (validWorkItems (c_key cat) (orEmpty (c_workItems cat)))\<rparr>"
    by blast
  then have c': "c = Obj \<lparr>c_name = c_name cat, c_key = c_key cat,
          c_workItems = Some (validWorkItems (c_key cat) (orEmpty (c_workItems cat)))\<rparr>"
    using c by simp
  let ?items = "map (fixedItem (c_key cat))
       (filter (\<lambda>item. \<not> blank (w_type item) \<and>
                  \<not> (w_type item = Some customWorkType \<and> blank (w_customWorkTypeName item)))
          (objects (orEmpty (c_workItems cat))))"
  let ?cat = "\<lparr>c_name = c_name cat, c_key = c_key cat, c_workItems = Some (map Obj ?items)\<rparr>"
  have v: "validWorkItems (c_key cat) (orEmpty (c_workItems cat)) = map Obj ?items"
    by (simp add: validWorkItems_filter)
  have "\<And>item. \<not> blank (w_type item) \<Longrightarrow> \<not> blank (w_type (fixedItem (c_key cat) item))"
    by (simp add: fixedItem_def blank_trim)
  then have nb: "\<forall>item\<in>set ?items. \<not> blank (w_type item)"
    by auto
  have "c = Obj ?cat" unfolding c' v by (rule refl)
  moreover have "c_workItems ?cat = Some (map Obj ?items)" by simp
  ultimately show ?thesis using nb by (intro exI [of _ ?cat] exI [of _ ?items] conjI)
qed

lemma sanitized_noNullEntry:
  assumes "ensureCategoryKeys (AnArray raw) = Inr out"
  shows "noNullEntry out"
  unfolding noNullEntry_def
proof (intro ballI conjI allI impI)
  fix c assume c: "c \<in> set out"
  from sanitized_items [OF assms c] show "c \<noteq> Null" by auto
  fix cat assume "c = Obj cat"
  with sanitized_items [OF assms c] show "Null \<notin> set (orEmpty (c_workItems cat))"
    by (auto simp: orEmpty_def)
qed


lemma mixed_sanitized:
  "ensureCategoryKeys (AnArray [Obj mixedCategory]) = Inr [Obj exampleFixed]"
  by (simp add: mixedCategory_def blankTypeItem_def unnamedCustomItem_def exampleCategory_def
      exampleItem_def exampleFixed_def truthy_def orEmpty_def blank_def trim_def isWhiteSpace_def
      customWorkType_def)

text \<open>
  What the Sanitizer guarantees. When it returns, each output category holds,
  rebuilt, exactly those work items of its input category that are objects, whose
  type is not blank, and that do not have the custom type with a blank
  \<open>customWorkTypeName\<close> (the others are dropped silently), and no work item of the
  output has a blank type. When a category of the array lacks its key or its name,
  the whole call fails with the structural error that names the index of such a
  category (the first one); the category is neither omitted nor passed through.
\<close>

lemma ensureCategoryKeys_drop_law:
  "(ensureCategoryKeys (AnArray raw) = Inr out \<longrightarrow>
      length out = length raw \<and>
      (\<forall>i<length raw. \<exists>cat.
         raw ! i = Obj cat \<and>
         out ! i = Obj \<lparr>c_name = c_name cat, c_key = c_key cat,
           c_workItems = Some
             (map (\<lambda>item. Obj (fixedItem (c_key cat) item))
                (filter (\<lambda>item. \<not> blank (w_type item) \<and>
                           \<not> (w_type item = Some customWorkType \<and>
                              blank (w_customWorkTypeName item)))
                   (objects (orEmpty (c_workItems cat)))))\<rparr>) \<and>
      (\<forall>item\<in>set (workItemsOf out). \<not> blank (w_type item))) \<and>
   (i < length raw' \<and> raw' ! i = Obj cat' \<and> (\<not> truthy (c_key cat') \<or> \<not> truthy (c_name cat')) \<longrightarrow>
      (\<exists>j\<le>i. ensureCategoryKeys (AnArray raw') = Inl (MissingFields j) \<and>
         (\<exists>c. raw' ! j = Obj c \<and> (\<not> truthy (c_key c) \<or> \<not> truthy (c_name c)))))"
proof (intro conjI impI)
  assume ok: "ensureCategoryKeys (AnArray raw) = Inr out"
  show "length out = length raw" by (rule ensureCategoryKeys_Inr(1) [OF ok])
  show "\<forall>i<length raw. \<exists>cat.
         raw ! i = Obj cat \<and>
         out ! i = Obj \<lparr>c_name = c_name cat, c_key = c_key cat,
           c_workItems = Some
             (map (\<lambda>item. Obj (fixedItem (c_key cat) item))
                (filter (\<lambda>item. \<not> blank (w_type item) \<and>
                           \<not> (w_type item = Some customWorkType \<and>
                              blank (w_customWorkTypeName item)))
                   (objects (orEmpty (c_workItems cat)))))\<rparr>"
    using ensureCategoryKeys_Inr(2) [OF ok] unfolding validWorkItems_filter by blast
  show "\<forall>item\<in>set (workItemsOf out). \<not> blank (w_type item)"
  proof
    fix item assume "item \<in> set (workItemsOf out)"
    then obtain cat where cat: "Obj cat \<in> set out"
      and item: "item \<in> set (objects (orEmpty (c_workItems cat)))"
      by (auto simp: workItemsOf_def set_objects)
    from sanitized_items [OF ok cat] obtain items where
      "c_workItems cat = Some (map Obj items)" "\<forall>item\<in>set items. \<not> blank (w_type item)"
      by auto
    with item show "\<not> blank (w_type item)"
      by (simp add: orEmpty_def objects_map_Obj [of "\<lambda>x. x", simplified])
  qed
next
  assume a: "i < length raw' \<and> raw' ! i = Obj cat' \<and> (\<not> truthy (c_key cat') \<or> \<not> truthy (c_name cat'))"
  then have "\<exists>j\<le>i. mapCategories 0 raw' = Inl (MissingFields (0 + j)) \<and>
     (\<exists>c. raw' ! j = Obj c \<and> (\<not> truthy (c_key c) \<or> \<not> truthy (c_name c)))"
    by (intro mapCategories_Inl) auto
  then show "\<exists>j\<le>i. ensureCategoryKeys (AnArray raw') = Inl (MissingFields j) \<and>
         (\<exists>c. raw' ! j = Obj c \<and> (\<not> truthy (c_key c) \<or> \<not> truthy (c_name c)))"
    by auto
qed

lemma ensureCategoryKeys_drop_law_example:
  "ensureCategoryKeys (AnArray [Obj mixedCategory]) = Inr [Obj exampleFixed] \<and>
   length [Obj exampleFixed] = length [Obj mixedCategory] \<and>
   list_all (\<lambda>item. \<not> blank (w_type item)) (workItemsOf [Obj exampleFixed]) \<and>
   (1::nat) < length [Obj exampleCategory, Obj namelessCategory] \<and>
   [Obj exampleCategory, Obj namelessCategory] ! 1 = Obj namelessCategory \<and>
   \<not> truthy (c_name namelessCategory) \<and>
   ensureCategoryKeys (AnArray [Obj exampleCategory, Obj namelessCategory]) =
     Inl (MissingFields 1)"
proof -
  have h1: "ensureCategoryKeys (AnArray [Obj mixedCategory]) = Inr [Obj exampleFixed]"
    by (rule mixed_sanitized)
  have h2: "(1::nat) < length [Obj exampleCategory, Obj namelessCategory] \<and>
    [Obj exampleCategory, Obj namelessCategory] ! 1 = Obj namelessCategory \<and>
    (\<not> truthy (c_key namelessCategory) \<or> \<not> truthy (c_name namelessCategory))"
    by (simp add: namelessCategory_def truthy_def)
  have n: "\<not> truthy (c_name namelessCategory)"
    by (simp add: namelessCategory_def truthy_def)
  have k: "truthy (c_key exampleCategory) \<and> truthy (c_name exampleCategory)"
    by (simp add: exampleCategory_def truthy_def)
  from ensureCategoryKeys_drop_law [of "[Obj mixedCategory]" "[Obj exampleFixed]" 1
      "[Obj exampleCategory, Obj namelessCategory]" namelessCategory] h1 h2
  have a: "length [Obj exampleFixed] = length [Obj mixedCategory]"
    and b: "\<forall>item\<in>set (workItemsOf [Obj exampleFixed]). \<not> blank (w_type item)"
    and c: "\<exists>j\<le>1. ensureCategoryKeys (AnArray [Obj exampleCategory, Obj namelessCategory]) =
        Inl (MissingFields j) \<and>
        (\<exists>c. [Obj exampleCategory, Obj namelessCategory] ! j = Obj c \<and>
           (\<not> truthy (c_key c) \<or> \<not> truthy (c_name c)))"
    by blast+
  from c obtain j where j: "j \<le> 1"
    and e: "ensureCategoryKeys (AnArray [Obj exampleCategory, Obj namelessCategory]) =
        Inl (MissingFields j)"
    and o: "\<exists>c. [Obj exampleCategory, Obj namelessCategory] ! j = Obj c \<and>
           (\<not> truthy (c_key c) \<or> \<not> truthy (c_name c))"
    by blast
  have "j = 1"
  proof (rule ccontr)
    assume "j \<noteq> 1"
    with j have "j = 0" by simp
    with o k show False by simp
  qed
  with e have "ensureCategoryKeys (AnArray [Obj exampleCategory, Obj namelessCategory]) =
     Inl (MissingFields 1)" by simp
  moreover from b have "list_all (\<lambda>item. \<not> blank (w_type item)) (workItemsOf [Obj exampleFixed])"
    by (simp only: list_all_iff)
  ultimately show ?thesis using h1 h2 n a by blast
qed

text \<open>
  Claim C3. No work item whose type is blank, and no work item whose type equals
  the custom-type marker but whose \<open>customWorkTypeName\<close> is blank, ever appears in the
  sanitized output; a category without key or name fails the whole call. The code
  tests for the marker before it trims the type: an item of type
  \<open>' custom-work-type'\<close> with an empty name passes the test, and the output holds it
  with the type trimmed to the marker and the name still blank.
\<close>

theorem ensureCategoryKeys_padded_custom_type:
  "ensureCategoryKeys (AnArray [Obj (exampleCategory\<lparr>c_workItems := Some [Obj paddedCustomItem]\<rparr>)]) =
     Inr [Obj paddedFixed] \<and>
   workItemsOf [Obj paddedFixed] = [fixedItem (Some ''kitchen'') paddedCustomItem] \<and>
   w_type (fixedItem (Some ''kitchen'') paddedCustomItem) = Some customWorkType \<and>
   blank (w_customWorkTypeName (fixedItem (Some ''kitchen'') paddedCustomItem))"
  by (simp add: exampleCategory_def exampleItem_def paddedCustomItem_def paddedFixed_def
      fixedItem_def truthy_def orEmpty_def orDefault_def blank_def trim_def isWhiteSpace_def
      customWorkType_def workItemsOf_def)

section \<open>Properties of the Cost Totals Calculator\<close>

lemma addItems_sum:
  "Null \<notin> set items \<Longrightarrow>
   addItems (m, l) items =
     Inr (m + (\<Sum>item\<leftarrow>objects items. numberOr0 (w_materialCost item) * getUnits (Obj item)),
          l + (\<Sum>item\<leftarrow>objects items. numberOr0 (w_laborCost item) * getUnits (Obj item)))"
proof (induction items arbitrary: m l)
  case Nil
  show ?case by simp
next
  case (Cons x xs)
  then have "Null \<notin> set xs" by simp
  note IH = Cons.IH [OF this]
  show ?case
  proof (cases x)
    case Null
    with Cons.prems show ?thesis by simp
  next
    case Prim
    then show ?thesis by (simp add: IH numberOr0_def)
  next
    case (Obj item)
    then show ?thesis by (simp add: IH Let_def add.assoc)
  qed
qed

lemma addCategories_sum:
  "noNullEntry cats \<Longrightarrow>
   addCategories (m, l) cats =
     Inr (m + (\<Sum>item\<leftarrow>workItemsOf cats. numberOr0 (w_materialCost item) * getUnits (Obj item)),
          l + (\<Sum>item\<leftarrow>workItemsOf cats. numberOr0 (w_laborCost item) * getUnits (Obj item)))"
proof (induction cats arbitrary: m l)
  case Nil
  show ?case by (simp add: workItemsOf_def)
next
  case (Cons c cs)
  then have "noNullEntry cs" by (simp add: noNullEntry_def)
  note IH = Cons.IH [OF this]
  show ?case
  proof (cases c)
    case Null
    with Cons.prems show ?thesis by (simp add: noNullEntry_def)
  next
    case Prim
    then show ?thesis by (simp add: IH orEmpty_def workItemsOf_def)
  next
    case (Obj cat)
    with Cons.prems have "Null \<notin> set (orEmpty (c_workItems cat))" by (simp add: noNullEntry_def)
    from addItems_sum [OF this] Obj show ?thesis
      by (simp add: IH workItemsOf_def add.assoc)
  qed
qed

text \<open>
  On a tree without \<open>null\<close> entries the calculator returns, and every field of its
  result is \<open>toFixed2\<close> of a quantity computed from unrounded values only.
\<close>

lemma calculateCostsAndTotals_noNull:
  assumes "noNullEntry categories"
  shows "calculateCostsAndTotals categories settings =
    (let s = settingsOrEmpty settings;
         M = materialCostRaw categories;
         L = laborCostRaw categories;
         d = numberOr0 (st_laborDiscount s);
         w = numberOr0 (st_wasteFactor s);
         S = M * (1 + w) + L * (1 - d);
         fees = miscFeesSum s;
         fee = numberOr0 (st_transportationFee s)
     in Inr \<lparr>t_materialCost = toFixed2 M,
             t_laborCost = toFixed2 (L * (1 - d)),
             t_laborCostBeforeDiscount = toFixed2 L,
             t_laborDiscount = toFixed2 (L * d),
             t_wasteCost = toFixed2 (M * w),
             t_taxAmount = toFixed2 (S * numberOr0 (st_taxRate s)),
             t_markupAmount = toFixed2 (S * numberOr0 (st_markup s)),
             t_miscFeesTotal = toFixed2 fees,
             t_transportationFee = toFixed2 fee,
             t_subtotal = toFixed2 S,
             t_total = toFixed2 (S * (1 + numberOr0 (st_markup s) + numberOr0 (st_taxRate s)) + fees + fee)\<rparr>)"
proof -
  have a: "addCategories (0, 0) categories = Inr (materialCostRaw categories, laborCostRaw categories)"
    using addCategories_sum [OF assms, of 0 0] by (simp add: materialCostRaw_def laborCostRaw_def)
  have e1: "\<And>L d :: rat. L - L * d = L * (1 - d)" by (simp add: algebra_simps)
  have e2: "\<And>M w L d :: rat. M + M * w + L * (1 - d) = M * (1 + w) + L * (1 - d)"
    by (simp add: algebra_simps)
  have e3: "\<And>S m t a b :: rat. S + S * m + S * t + a + b = S * (1 + m + t) + a + b"
    by (simp add: algebra_simps)
  show ?thesis
    unfolding calculateCostsAndTotals_def a
    by (simp add: Let_def foldl_add_sum_list miscFeesSum_def e1 e2 e3 del: mult_cancel_left mult_cancel_right)
qed




section \<open>Properties of the Payment Aggregator\<close>

lemma foldl_addPayment_sum:
  "foldl addPayment acc ps =
     \<lparr>totalPaid = totalPaid acc + (\<Sum>p\<leftarrow>paidPayments ps. numberOr0 (p_amount p)),
      depositAmount = depositAmount acc +
        (\<Sum>p\<leftarrow>filter (\<lambda>p. p_method p = Some ''Deposit'') (paidPayments ps). numberOr0 (p_amount p))\<rparr>"
proof (induction ps arbitrary: acc)
  case Nil
  show ?case by (simp add: paidPayments_def)
next
  case (Cons x ps)
  show ?case
  proof (cases x)
    case (Obj p)
    then show ?thesis using Cons.IH by (simp add: paidPayments_def Let_def)
  qed (use Cons.IH in \<open>simp_all add: paidPayments_def\<close>)
qed

lemma foldl_addPayment_le:
  assumes "\<And>p. p \<in> set (paidPayments ps) \<Longrightarrow> 0 \<le> numberOr0 (p_amount p)"
    and "depositAmount acc \<le> totalPaid acc"
  shows "depositAmount (foldl addPayment acc ps) \<le> totalPaid (foldl addPayment acc ps)"
  using sum_list_filter_le [of "paidPayments ps" "\<lambda>p. numberOr0 (p_amount p)", OF assms(1)] assms(2)
  by (simp add: foldl_addPayment_sum add_mono)

lemma example_paid:
  "paidPayments examplePayments =
     [\<lparr>p_date = Some ''2024-01-05'', p_amount = Some 100, p_method = Some ''Cash'',
            p_note = None, p_isPaid = Some True, p_status = Some ''Paid''\<rparr>,
      \<lparr>p_date = Some ''2024-01-02'', p_amount = Some 50, p_method = Some ''Deposit'',
            p_note = None, p_isPaid = Some True, p_status = Some ''Paid''\<rparr>]"
  by (simp add: paidPayments_def examplePayments_def)





text \<open>
  Claim C9. For every payment list in which every \<open>isPaid\<close> entry has a non-negative
  amount, \<open>depositAmount\<close> is at most \<open>totalPaid\<close>.
\<close>

theorem depositAmount_le_totalPaid:
  assumes "\<forall>p\<in>set (paidPayments ps). \<forall>a. p_amount p = Some a \<longrightarrow> 0 \<le> a"
  shows "depositAmount (parsePayments (AnArray ps)) \<le> totalPaid (parsePayments (AnArray ps))"
proof -
  have "0 \<le> numberOr0 (p_amount p)" if "p \<in> set (paidPayments ps)" for p
    using assms that by (cases "p_amount p") (auto simp: numberOr0_def)
  from foldl_addPayment_le [OF this, of ps "\<lparr>totalPaid = 0, depositAmount = 0\<rparr>"]
  show ?thesis by simp
qed

theorem depositAmount_le_totalPaid_witness:
  "list_all (\<lambda>p. case p_amount p of None \<Rightarrow> True | Some a \<Rightarrow> 0 \<le> a) (paidPayments examplePayments) \<and>
   depositAmount (parsePayments (AnArray examplePayments)) = 50 \<and>
   totalPaid (parsePayments (AnArray examplePayments)) = 150 \<and>
   depositAmount (parsePayments (AnArray examplePayments))
     \<le> totalPaid (parsePayments (AnArray examplePayments))"
proof -
  have h: "\<forall>p\<in>set (paidPayments examplePayments). \<forall>a. p_amount p = Some a \<longrightarrow> 0 \<le> a"
    by (simp add: example_paid)
  have l: "list_all (\<lambda>p. case p_amount p of None \<Rightarrow> True | Some a \<Rightarrow> 0 \<le> a) (paidPayments examplePayments)"
    by (simp add: example_paid)
  have v: "depositAmount (parsePayments (AnArray examplePayments)) = 50"
    "totalPaid (parsePayments (AnArray examplePayments)) = 150"
    by (simp_all add: foldl_addPayment_sum example_paid numberOr0_def)
  from depositAmount_le_totalPaid [OF h] l v show ?thesis by blast
qed

section \<open>Properties of the controller\<close>

lemma sumWorkItems_objects:
  "(\<And>c. c \<in> set cs \<Longrightarrow> \<exists>cat items. c = Obj cat \<and> c_workItems cat = Some (map Obj items)) \<Longrightarrow>
   sumWorkItems acc cs = Inr (acc + length (workItemsOf cs))"
proof (induction cs arbitrary: acc)
  case Nil
  show ?case by (simp add: workItemsOf_def)
next
  case (Cons c cs)
  from Cons.prems [of c] obtain cat items where c: "c = Obj cat" "c_workItems cat = Some (map Obj items)"
    by auto
  have "sumWorkItems (acc + length items) cs = Inr (acc + length items + length (workItemsOf cs))"
    using Cons.prems by (intro Cons.IH) auto
  with c show ?case
    by (simp add: workItemsOf_def orEmpty_def objects_map_Obj [of "\<lambda>x. x", simplified])
qed

lemma calculateCostsAndTotals_sanitized:
  assumes "ensureCategoryKeys (AnArray raw) = Inr fixed"
  shows "\<exists>costs. calculateCostsAndTotals fixed settings = Inr costs"
  using calculateCostsAndTotals_noNull [OF sanitized_noNullEntry [OF assms], of settings]
  by (simp add: Let_def)

text \<open>
  For a request whose debug log does not throw and whose categories the Sanitizer
  accepts: no category is dropped, the request is refused for want of work items
  exactly when none survives, and otherwise the sanitized tree goes on to the
  persistence call.
\<close>

lemma createOrUpdate_sanitized:
  assumes "b_categories reqBody = AnArray cats" and "cats \<noteq> []"
    and "\<not> list_ex logCategoryThrows cats"
    and "ensureCategoryKeys (AnArray cats) = Inr fixed"
  shows "length fixed = length cats"
    and "createOrUpdate userId reqBody = Inl (Status400 NoCompleteWorkItems) \<longleftrightarrow>
           workItemsOf fixed = []"
    and "workItemsOf fixed \<noteq> [] \<Longrightarrow> b_settings reqBody \<noteq> Some Null \<Longrightarrow>
           \<exists>doc. createOrUpdate userId reqBody = Inr doc \<and> pr_categories doc = Some fixed"
proof -
  show "length fixed = length cats" by (rule ensureCategoryKeys_Inr(1) [OF assms(4)])
  have "\<exists>cat items. c = Obj cat \<and> c_workItems cat = Some (map Obj items)"
    if "c \<in> set fixed" for c
    using sanitized_items [OF assms(4) that] by blast
  from sumWorkItems_objects [of fixed 0, OF this]
  have s: "sumWorkItems 0 fixed = Inr (length (workItemsOf fixed))" by simp
  let ?settings = "case b_settings reqBody of None \<Rightarrow> Obj emptySettings | Some s \<Rightarrow> s"
  obtain costs where c: "calculateCostsAndTotals fixed ?settings = Inr costs"
    using calculateCostsAndTotals_sanitized [OF assms(4)] by blast
  show "createOrUpdate userId reqBody = Inl (Status400 NoCompleteWorkItems) \<longleftrightarrow>
           workItemsOf fixed = []"
    unfolding createOrUpdate_def
    using assms(1-3)
    by (simp add: assms(4) s c Let_def split: sum.splits
        del: ensureCategoryKeys.simps sumWorkItems.simps)
  assume n: "workItemsOf fixed \<noteq> []" "b_settings reqBody \<noteq> Some Null"
  then obtain payments where p: "settingsPayments ?settings = Inr payments"
    by (cases "b_settings reqBody"; cases "the (b_settings reqBody)") auto
  show "\<exists>doc. createOrUpdate userId reqBody = Inr doc \<and> pr_categories doc = Some fixed"
    unfolding createOrUpdate_def
    using assms(1-3) n(1)
    by (simp add: assms(4) s c p Let_def
        del: ensureCategoryKeys.simps sumWorkItems.simps)
qed

text \<open>
  Claim C5. Categories are never dropped by sanitization, and the request fails
  exactly when no work item survives it; the omission of an item fails the request in
  no other case. The code fails a request in which a \<open>null\<close> work item stands beside
  a complete one: the Sanitizer skips the \<open>null\<close> entry and keeps one item, but the
  debug log at the head of \<open>createOrUpdate\<close> has read \<open>item.name\<close> of the \<open>null\<close>
  entry before and the request ends with status 500.
\<close>

theorem createOrUpdate_null_item:
  "createOrUpdate ''user'' nullItemBody = Inl Status500 \<and>
   ensureCategoryKeys (b_categories nullItemBody) = Inr [Obj exampleFixed] \<and>
   length (workItemsOf [Obj exampleFixed]) = 1"
  by (simp add: createOrUpdate_def nullItemBody_def exampleCategory_def exampleItem_def
      exampleFixed_def truthy_def orEmpty_def blank_def trim_def isWhiteSpace_def
      customWorkType_def workItemsOf_def)

section \<open>Properties of the Taxonomy Validator\<close>




text \<open>A key that the table does not have is never accepted for a standard type.\<close>

lemma validateWorkType_unknown_key:
  "map_of VALID_WORK_TYPES k = None \<Longrightarrow> t \<noteq> customWorkType \<Longrightarrow> \<not> startsWith k ''custom_'' \<Longrightarrow>
   validateWorkType (Some k) (Some t) = Inr False \<or> validateWorkType (Some k) (Some t) = Inl TypeError"
  by (simp add: getProperty_def)

section \<open>Properties of the Invariant Enforcer\<close>

lemma normalize_canonical:
  "normalizeToCanonicalMeasurementType t \<in> {''sqft'', ''linear-foot'', ''by-unit''}"
  by (cases t) (simp_all add: normalizeToCanonicalMeasurementType_def Let_def)

lemma normalize_fixes_canonical:
  "normalizeToCanonicalMeasurementType (Some ''sqft'') = ''sqft''"
  "normalizeToCanonicalMeasurementType (Some ''linear-foot'') = ''linear-foot''"
  "normalizeToCanonicalMeasurementType (Some ''by-unit'') = ''by-unit''"
  by (simp_all add: normalizeToCanonicalMeasurementType_def Let_def toLowerCase_def
      toLowerChar_def trim_def isWhiteSpace_def)

lemma normalize_idem:
  "normalizeToCanonicalMeasurementType (Some (normalizeToCanonicalMeasurementType t)) =
     normalizeToCanonicalMeasurementType t"
  using normalize_canonical [of t] normalize_fixes_canonical by auto

lemma hookSurface_idem: "hookSurface (hookSurface s) = hookSurface s"
  by (cases s) (simp_all add: normalize_idem)

lemma hookItem_idem: "hookItem key (hookItem key item) = hookItem key item"
proof (cases item)
  case (Obj i)
  have "map hookSurface (map hookSurface xs) = map hookSurface xs" for xs
    by (simp add: hookSurface_idem)
  then show ?thesis using Obj
    by (cases "w_surfaces i") (simp_all add: normalize_idem)
qed simp_all

lemma hookCategory_idem: "hookCategory (hookCategory c) = hookCategory c"
proof (cases c)
  case (Obj cat)
  show ?thesis
  proof (cases "c_workItems cat")
    case None
    with Obj show ?thesis by simp
  next
    case (Some items)
    have "map (hookItem (c_key cat)) (map (hookItem (c_key cat)) items) =
        map (hookItem (c_key cat)) items"
      by (simp add: hookItem_idem)
    with Obj Some show ?thesis by simp
  qed
qed simp_all

lemma hookCustomerInfo_idem: "hookCustomerInfo (hookCustomerInfo ci) = hookCustomerInfo ci"
  by (simp add: hookCustomerInfo_def)

text \<open>
  Claim C6. The pre-validate pass (category key stamped on every work item,
  measurement types of items and surfaces normalized, street address derived from
  its parts) is idempotent: applied twice to any project document it gives the same
  document as applied once.
\<close>

theorem preValidate_idempotent: "preValidate (preValidate doc) = preValidate doc"
proof -
  have c: "map_option hookCustomerInfo (map_option hookCustomerInfo x) = map_option hookCustomerInfo x"
    for x by (cases x) (simp_all add: hookCustomerInfo_idem)
  have "map hookCategory (map hookCategory xs) = map hookCategory xs" for xs
    by (simp add: hookCategory_idem)
  then have k: "map_option (map hookCategory) (map_option (map hookCategory) x) =
      map_option (map hookCategory) x" for x
    by (cases x) simp_all
  show ?thesis by (simp add: preValidate_def c k)
qed

theorem preValidate_idempotent_witness:
  "preValidate (preValidate (projectOf tinyUnitsItem)) = preValidate (projectOf tinyUnitsItem) \<and>
   pr_customerInfo (preValidate (projectOf tinyUnitsItem)) =
     Some (exampleCustomer\<lparr>ci_street := Some ''12 Main St''\<rparr>) \<and>
   projectItems (preValidate (projectOf tinyUnitsItem)) =
     [tinyUnitsItem\<lparr>w_categoryKey := Some ''kitchen'',
        w_surfaces := Some [Obj (exampleSurface\<lparr>s_units := Some (5 / 10 ^ 7)\<rparr>)]\<rparr>]"
proof -
  have "pr_customerInfo (preValidate (projectOf tinyUnitsItem)) =
     Some (exampleCustomer\<lparr>ci_street := Some ''12 Main St''\<rparr>)"
    by (simp add: preValidate_def projectOf_def hookCustomerInfo_def exampleCustomer_def
        truthy_def trim_def isWhiteSpace_def)
  moreover have "projectItems (preValidate (projectOf tinyUnitsItem)) =
     [tinyUnitsItem\<lparr>w_categoryKey := Some ''kitchen'',
        w_surfaces := Some [Obj (exampleSurface\<lparr>s_units := Some (5 / 10 ^ 7)\<rparr>)]\<rparr>]"
    by (simp add: preValidate_def projectOf_def projectItems_def workItemsOf_def orEmpty_def
        exampleCategory_def tinyUnitsItem_def exampleItem_def exampleSurface_def
        normalizeToCanonicalMeasurementType_def Let_def toLowerCase_def toLowerChar_def
        trim_def isWhiteSpace_def)
  ultimately show ?thesis using preValidate_idempotent [of "projectOf tinyUnitsItem"] by blast
qed

section \<open>Properties of the Repair Service\<close>

lemma placeholder_not_blank: "\<not> blank (Some ''Unnamed Custom Work'')"
  by (simp add: blank_def trim_def isWhiteSpace_def)

lemma repairItem_Inr:
  "repairItem item = Inr (item', needs) \<Longrightarrow>
     (\<forall>i. item' = Obj i \<longrightarrow> \<not> corrupted i) \<and> (\<not> needs \<longrightarrow> item' = item)"
  by (cases item) (auto simp: corrupted_def placeholder_not_blank split: if_splits)

lemma repairItems_Inr:
  "repairItems items = Inr (items', needs) \<Longrightarrow>
     (\<forall>i\<in>set (objects items'). \<not> corrupted i) \<and> (\<not> needs \<longrightarrow> items' = items)"
proof (induction items arbitrary: items' needs)
  case Nil
  then show ?case by simp
next
  case (Cons x xs)
  from Cons.prems obtain x' n xs' n' where x: "repairItem x = Inr (x', n)"
    and xs: "repairItems xs = Inr (xs', n')" and r: "items' = x' # xs'" "needs = (n \<or> n')"
    by (auto split: sum.splits prod.splits)
  from repairItem_Inr [OF x] Cons.IH [OF xs] r show ?case
    by (cases x') auto
qed

lemma repairCategory_Inr:
  "repairCategory c = Inr (c', needs) \<Longrightarrow>
     (\<forall>cat. c' = Obj cat \<longrightarrow> (\<forall>i\<in>set (objects (orEmpty (c_workItems cat))). \<not> corrupted i)) \<and>
     (\<not> needs \<longrightarrow> c' = c)"
proof (cases c)
  case (Obj cat)
  assume a: "repairCategory c = Inr (c', needs)"
  with Obj obtain items items' where i: "c_workItems cat = Some items"
    and r: "repairItems items = Inr (items', needs)"
    and c': "c' = Obj (cat\<lparr>c_workItems := Some items'\<rparr>)"
    by (auto split: option.splits sum.splits prod.splits)
  from repairItems_Inr [OF r] have "\<forall>i\<in>set (objects items'). \<not> corrupted i"
    and "\<not> needs \<longrightarrow> items' = items" by auto
  then show ?thesis using Obj i c' by (auto simp: orEmpty_def)
qed simp_all

lemma repairCategories_Inr:
  "repairCategories cs = Inr (cs', needs) \<Longrightarrow>
     (\<forall>i\<in>set (workItemsOf cs'). \<not> corrupted i) \<and> (\<not> needs \<longrightarrow> cs' = cs)"
proof (induction cs arbitrary: cs' needs)
  case Nil
  then show ?case by (simp add: workItemsOf_def)
next
  case (Cons x xs)
  from Cons.prems obtain x' n xs' n' where x: "repairCategory x = Inr (x', n)"
    and xs: "repairCategories xs = Inr (xs', n')" and r: "cs' = x' # xs'" "needs = (n \<or> n')"
    by (auto split: sum.splits prod.splits)
  from repairCategory_Inr [OF x] Cons.IH [OF xs] r show ?case
    by (cases x') (auto simp: workItemsOf_def)
qed

lemma repairProject_Inr:
  "repairProject doc = Inr (doc', needs) \<Longrightarrow>
     (\<forall>i\<in>set (projectItems doc'). \<not> corrupted i) \<and> (\<not> needs \<longrightarrow> doc' = doc)"
proof -
  assume a: "repairProject doc = Inr (doc', needs)"
  then obtain cs cs' where c: "pr_categories doc = Some cs"
    and r: "repairCategories cs = Inr (cs', needs)"
    and d: "doc' = doc\<lparr>pr_categories := Some cs'\<rparr>"
    by (auto simp: repairProject_def split: option.splits sum.splits prod.splits)
  from repairCategories_Inr [OF r] have "\<forall>i\<in>set (workItemsOf cs'). \<not> corrupted i"
    and "\<not> needs \<longrightarrow> cs' = cs" by auto
  then show ?thesis using c d by (auto simp: projectItems_def orEmpty_def)
qed

lemma validateAndRepairProjects_Inr:
  "validateAndRepairProjects saveFails projects = Inr (store, repairs) \<Longrightarrow>
   (pid, doc) \<in> set store \<Longrightarrow> \<not> saveFails pid \<Longrightarrow> i \<in> set (projectItems doc) \<Longrightarrow> \<not> corrupted i"
proof (induction projects arbitrary: store repairs)
  case Nil
  then show ?case by simp
next
  case (Cons p ps)
  obtain pid0 doc0 where p: "p = (pid0, doc0)" by (cases p)
  from Cons.prems(1) p obtain doc' needs store' repairs' where
    r: "repairProject doc0 = Inr (doc', needs)"
    and rest: "validateAndRepairProjects saveFails ps = Inr (store', repairs')"
    and s: "store = (if needs \<and> \<not> saveFails pid0 then (pid0, doc') else (pid0, doc0)) # store'"
    by (auto split: sum.splits prod.splits if_splits)
  from repairProject_Inr [OF r] have clean: "\<forall>i\<in>set (projectItems doc'). \<not> corrupted i"
    and same: "\<not> needs \<longrightarrow> doc' = doc0" by auto
  show ?case
  proof (cases "(pid, doc) \<in> set store'")
    case True
    from Cons.IH [OF rest True Cons.prems(3,4)] show ?thesis .
  next
    case False
    with Cons.prems(2) s have "(pid, doc) = (if needs \<and> \<not> saveFails pid0 then (pid0, doc') else (pid0, doc0))"
      by auto
    with Cons.prems(3) same have "doc = doc'" by (auto split: if_splits)
    with clean Cons.prems(4) show ?thesis by simp
  qed
qed

text \<open>The repairing \<open>show\<close> answers with a repaired project, and stores it when the save succeeds.\<close>

lemma showProject_repaired:
  "showProject saveFails doc = (Inr doc', stored) \<Longrightarrow>
     (\<forall>i\<in>set (projectItems doc'). \<not> corrupted i) \<and>
     (\<not> saveFails \<longrightarrow> (\<forall>i\<in>set (projectItems stored). \<not> corrupted i))"
proof -
  assume a: "showProject saveFails doc = (Inr doc', stored)"
  then obtain needs where r: "repairProject doc = Inr (doc', needs)"
    and s: "stored = (if needs \<and> \<not> saveFails then doc' else doc)"
    by (auto simp: showProject_def Let_def split: sum.splits prod.splits option.splits)
  from repairProject_Inr [OF r] s show ?thesis by auto
qed

lemma example_repair:
  "validateAndRepairProjects saveNeverFails [(''p1'', unnamedCustomProject)] =
     Inr ([(''p1'', projectOf (unnamedCustomItem\<lparr>w_customWorkTypeName := Some ''Unnamed Custom Work''\<rparr>))],
          [''p1''])"
  by (simp add: unnamedCustomProject_def projectOf_def repairProject_def corrupted_def
      unnamedCustomItem_def exampleItem_def exampleCategory_def customWorkType_def blank_def
      trim_def isWhiteSpace_def saveNeverFails_def)

text \<open>
  Claim C7, amended. After the Repair Service has run, every work item of a stored
  project whose save did not fail satisfies: if its type is the custom-type marker,
  its \<open>customWorkTypeName\<close> is not blank. (The claim as stated is an equivalence; the
  converse fails.)
\<close>

theorem repair_names_custom_items:
  assumes "validateAndRepairProjects saveFails projects = Inr (store, repairs)"
    and "(pid, doc) \<in> set store" and "\<not> saveFails pid"
    and "item \<in> set (projectItems doc)"
    and "w_type item = Some customWorkType"
  shows "\<not> blank (w_customWorkTypeName item)"
  using validateAndRepairProjects_Inr [OF assms(1-4)] assms(5) by (simp add: corrupted_def)

theorem repair_names_custom_items_witness:
  "validateAndRepairProjects saveNeverFails [(''p1'', unnamedCustomProject)] =
     Inr ([(''p1'', projectOf (unnamedCustomItem\<lparr>w_customWorkTypeName := Some ''Unnamed Custom Work''\<rparr>))],
          [''p1'']) \<and>
   \<not> saveNeverFails ''p1'' \<and>
   projectItems (projectOf (unnamedCustomItem\<lparr>w_customWorkTypeName := Some ''Unnamed Custom Work''\<rparr>)) =
     [unnamedCustomItem\<lparr>w_customWorkTypeName := Some ''Unnamed Custom Work''\<rparr>] \<and>
   w_type (unnamedCustomItem\<lparr>w_customWorkTypeName := Some ''Unnamed Custom Work''\<rparr>) =
     Some customWorkType \<and>
   blank (w_customWorkTypeName unnamedCustomItem) \<and>
   \<not> blank (w_customWorkTypeName
       (unnamedCustomItem\<lparr>w_customWorkTypeName := Some ''Unnamed Custom Work''\<rparr>))"
proof -
  let ?item = "unnamedCustomItem\<lparr>w_customWorkTypeName := Some ''Unnamed Custom Work''\<rparr>"
  have h2: "(''p1'', projectOf ?item) \<in> set [(''p1'', projectOf ?item)]" by simp
  have h3: "\<not> saveNeverFails ''p1''" by (simp add: saveNeverFails_def)
  have h4: "projectItems (projectOf ?item) = [?item]"
    by (simp add: projectItems_def projectOf_def workItemsOf_def orEmpty_def)
  then have h4': "?item \<in> set (projectItems (projectOf ?item))" by simp
  have h5: "w_type ?item = Some customWorkType"
    by (simp add: unnamedCustomItem_def customWorkType_def)
  have b: "blank (w_customWorkTypeName unnamedCustomItem)"
    by (simp add: unnamedCustomItem_def blank_def trim_def isWhiteSpace_def)
  from repair_names_custom_items [OF example_repair h2 h3 h4' h5] example_repair h3 h4 h5 b
  show ?thesis by blast
qed

text \<open>
  An item of a standard type with a custom name passes the repair unchanged: its
  name is not blank although its type is not the marker.
\<close>

theorem repair_named_standard_item_counterexample:
  "validateAndRepairProjects saveNeverFails [(''p1'', projectOf namedStandardItem)] =
     Inr ([(''p1'', projectOf namedStandardItem)], []) \<and>
   projectItems (projectOf namedStandardItem) = [namedStandardItem] \<and>
   \<not> blank (w_customWorkTypeName namedStandardItem) \<and>
   w_type namedStandardItem \<noteq> Some customWorkType"
  by (simp add: projectOf_def repairProject_def corrupted_def projectItems_def workItemsOf_def
      orEmpty_def namedStandardItem_def exampleItem_def exampleCategory_def customWorkType_def
      blank_def trim_def isWhiteSpace_def saveNeverFails_def)

end
